theory Spec2Isabelle
  imports Complex_Main "HOL-Library.AList"
begin

section \<open>Data model\<close>

text \<open>
  Times are milliseconds since the epoch. Numbers that the source reads from the process
  environment with \<open>parseInt\<close> are taken as already parsed integers: the record
  \<open>config\<close> is the environment of a process whose variables are all set to decimal
  integers. \<open>TZ_OFFSET_MS\<close> is the offset of the host's local time from UTC, which
  \<open>Date.setHours(0, 0, 0, 0)\<close> depends on; it is taken to be constant (no change of
  daylight saving time within the days looked at).
\<close>

type_synonym time = int

record config =
  CREDIT_PER_CONVERSION :: int
  REFERRAL_BONUS :: int
  MAX_FILE_SIZE_MB :: int
  FILE_DELETE_AFTER_HOURS :: int
  DAILY_LIMIT :: int
  STORAGE_CHANNEL_ID :: int
  TZ_OFFSET_MS :: int

text \<open>
  A document of the \<open>users\<close> collection. Firestore documents have no schema: the two
  fields that only \<open>startHandler\<close> supplies, and \<open>created_at\<close>, whose presence the
  source tests, are optional.
\<close>

record user_doc =
  user_id :: int
  credits :: int
  referrals :: int
  usage_count :: int
  last_activity :: time
  created_at :: "time option"
  username :: "string option"
  referrer_id :: "int option"

text \<open>The second argument of \<open>getOrCreateUser\<close>, spread into a new document.\<close>

record user_data =
  ud_username :: "string option"
  ud_referrer_id :: "int option"

text \<open>
  A document of the \<open>conversions\<close> collection. Two places of the source add documents to
  it, with different fields; a field a document does not carry is \<open>None\<close>.
\<close>

record conv_doc =
  c_user_id :: "int option"
  original_file_id :: "string option"
  converted_file_id :: "string option"
  format :: "string option"
  c_created_at :: time
  message_id :: "int option"
  chat_id :: "int option"
  file_id :: "string option"
  expires_at :: "time option"

datatype file_type = Video | Audio

text \<open>\<open>ctx.session.fileInfo\<close>. Telegram's \<open>file_size\<close> is optional.\<close>

record file_info =
  fileId :: string
  fileType :: file_type
  fileName :: string
  fileSize :: "int option"

text \<open>
  The state the program works on: the two Firestore collections (documents of
  \<open>conversions\<close> under the identifiers Firestore gives them, in the order they were
  added), telegraf's session store (keyed by sender and chat), and the messages that
  stand in the storage channel.

  Reads and writes of Firestore and replies to the user are taken to succeed; what can
  fail is the download, ffmpeg, the upload to the storage channel and the deletion of a
  message there. A run of a handler reads the clock once: \<open>now\<close> stands for
  \<open>Date.now()\<close> and for every server timestamp of that run. Handlers run one after
  the other.
\<close>

record state =
  users :: "(int \<times> user_doc) list"
  conversions :: "(nat \<times> conv_doc) list"
  next_doc_id :: nat
  sessions :: "int \<times> int \<Rightarrow> file_info option"
  channel :: "int list"
  next_message_id :: int

datatype error =
  UserNotFound
  | InsufficientCredits
  | DownloadFailed
  | ConvertVideoFailed
  | ConvertAudioFailed
  | UnsupportedFormat
  | UploadFailed
  | DocumentNotFound
  | TypeError

section \<open>The user service\<close>

definition users_set :: "int \<Rightarrow> user_doc \<Rightarrow> state \<Rightarrow> state" where
  "users_set userId doc st = st\<lparr>users := AList.update userId doc (users st)\<rparr>"

definition no_user_data :: user_data where
  "no_user_data = \<lparr>ud_username = None, ud_referrer_id = None\<rparr>"

text \<open>
  \<open>getOrCreateUser\<close>: an existing user has \<open>last_activity\<close> refreshed and the document
  as it was read is returned; otherwise a document with 10 credits is created.
\<close>

definition getOrCreateUser :: "time \<Rightarrow> int \<Rightarrow> user_data \<Rightarrow> state \<Rightarrow> state \<times> user_doc" where
  "getOrCreateUser now userId userData st =
     (case map_of (users st) userId of
        Some userDoc \<Rightarrow>
          (users_set userId (userDoc\<lparr>last_activity := now\<rparr>) st, userDoc)
      | None \<Rightarrow>
          (let newUser =
             \<lparr>user_id = userId, credits = 10, referrals = 0, usage_count = 0,
              last_activity = now, created_at = Some now,
              username = ud_username userData, referrer_id = ud_referrer_id userData\<rparr>
           in (users_set userId newUser st, newUser)))"

text \<open>
  \<open>updateCredits\<close>: the body of the Firestore transaction, one step on the state. A
  throw inside the transaction commits nothing.
\<close>

definition updateCredits :: "time \<Rightarrow> int \<Rightarrow> int \<Rightarrow> state \<Rightarrow> state \<times> (error + int)" where
  "updateCredits now userId amount st =
     (case map_of (users st) userId of
        None \<Rightarrow> (st, Inl UserNotFound)
      | Some userData \<Rightarrow>
          (let newCredits = credits userData + amount in
           if newCredits < 0 then (st, Inl InsufficientCredits)
           else (users_set userId (userData\<lparr>credits := newCredits, last_activity := now\<rparr>) st,
                 Inr newCredits)))"

text \<open>
  \<open>processReferral\<close>. The referrer is \<open>None\<close> for \<open>null\<close> and \<open>NaN\<close>; \<open>0\<close> is falsy
  too.
\<close>

definition processReferral :: "config \<Rightarrow> time \<Rightarrow> int option \<Rightarrow> int \<Rightarrow> state \<Rightarrow> state \<times> bool" where
  "processReferral cfg now referrerId newUserId st =
     (case referrerId of
        None \<Rightarrow> (st, False)
      | Some r \<Rightarrow>
          if r = 0 \<or> r = newUserId then (st, False)
          else (case map_of (users st) r of
                  None \<Rightarrow> (st, False)
                | Some referrerDoc \<Rightarrow>
                    (users_set r
                       (referrerDoc\<lparr>referrals := referrals referrerDoc + 1,
                                    credits := credits referrerDoc + REFERRAL_BONUS cfg,
                                    last_activity := now\<rparr>) st,
                     True)))"

text \<open>Local midnight of the day of \<open>now\<close>.\<close>

definition startOfDay :: "config \<Rightarrow> time \<Rightarrow> time" where
  "startOfDay cfg now = now - (now + TZ_OFFSET_MS cfg) mod 86400000"

text \<open>The query of \<open>checkDailyLimit\<close>: the documents of a user created today.\<close>

definition todayConversions :: "config \<Rightarrow> time \<Rightarrow> int \<Rightarrow> state \<Rightarrow> (nat \<times> conv_doc) list" where
  "todayConversions cfg now userId st =
     filter (\<lambda>(i, d). c_user_id d = Some userId \<and> startOfDay cfg now \<le> c_created_at d)
       (conversions st)"

definition checkDailyLimit :: "config \<Rightarrow> time \<Rightarrow> int \<Rightarrow> state \<Rightarrow> bool" where
  "checkDailyLimit cfg now userId st =
     (case map_of (users st) userId of
        None \<Rightarrow> False
      | Some userData \<Rightarrow> DAILY_LIMIT cfg \<le> int (length (todayConversions cfg now userId st)))"

record stats =
  totalUsers :: nat
  activeUsers :: nat
  totalConversions :: nat

definition getStats :: "time \<Rightarrow> state \<Rightarrow> stats" where
  "getStats now st =
     \<lparr>totalUsers = length (users st),
      activeUsers = length (filter (\<lambda>(i, u). now - 7 * 86400000 \<le> last_activity u) (users st)),
      totalConversions = length (conversions st)\<rparr>"

definition resetUser :: "time \<Rightarrow> int \<Rightarrow> state \<Rightarrow> state \<times> bool" where
  "resetUser now userId st =
     (case map_of (users st) userId of
        None \<Rightarrow> (st, False)
      | Some userDoc \<Rightarrow>
          (users_set userId
             (userDoc\<lparr>credits := 10, referrals := 0, usage_count := 0, last_activity := now\<rparr>) st,
           True))"

section \<open>JavaScript built-ins the source relies on\<close>

text \<open>
  \<open>String.prototype.startsWith\<close>, and \<open>String.prototype.replace\<close> with a string
  pattern, which replaces the first occurrence only.
\<close>

definition startsWith :: "string \<Rightarrow> string \<Rightarrow> bool" where
  "startsWith s p = (take (length p) s = p)"

fun js_replace :: "string \<Rightarrow> string \<Rightarrow> string \<Rightarrow> string" where
  "js_replace pat rep [] = (if pat = [] then rep else [])"
| "js_replace pat rep (c # cs) =
     (if take (length pat) (c # cs) = pat then rep @ drop (length pat) (c # cs)
      else c # js_replace pat rep cs)"

text \<open>
  \<open>parseInt\<close> with no radix: leading white space is skipped, a sign is read, a prefix
  \<open>0x\<close> selects radix 16, and the longest run of digits is the value; with no digit the
  result is \<open>NaN\<close>, here \<open>None\<close>. Values are exact (no rounding to a double), and of
  the white space only the ASCII characters are known.
\<close>

definition js_whitespace :: "char \<Rightarrow> bool" where
  "js_whitespace c =
     (c \<in> set [CHR 0x09, CHR 0x0A, CHR 0x0B, CHR 0x0C, CHR 0x0D, CHR 0x20])"

definition digit_value :: "char \<Rightarrow> nat option" where
  "digit_value c =
     map_of
       (zip ''0123456789abcdef'' [0, 1, 2, 3, 4, 5, 6, 7, 8, 9, 10, 11, 12, 13, 14, 15] @
        zip ''ABCDEF'' [10, 11, 12, 13, 14, 15]) c"

fun radix_digits :: "nat \<Rightarrow> string \<Rightarrow> nat list" where
  "radix_digits R [] = []"
| "radix_digits R (c # cs) =
     (case digit_value c of
        None \<Rightarrow> []
      | Some d \<Rightarrow> if d < R then d # radix_digits R cs else [])"

definition digits_value :: "nat \<Rightarrow> nat list \<Rightarrow> nat" where
  "digits_value R ds = foldl (\<lambda>acc d. acc * R + d) 0 ds"

definition parseInt :: "string \<Rightarrow> int option" where
  "parseInt string =
     (let S = dropWhile js_whitespace string;
          sign = (if S \<noteq> [] \<and> hd S = CHR ''-'' then - 1 else 1);
          S1 = (if S \<noteq> [] \<and> (hd S = CHR ''+'' \<or> hd S = CHR ''-'') then tl S else S);
          hex = (take 2 S1 = ''0x'' \<or> take 2 S1 = ''0X'');
          R = (if hex then 16 else 10);
          Z = radix_digits R (if hex then drop 2 S1 else S1)
      in if Z = [] then None else Some (sign * int (digits_value R Z)))"

text \<open>A number in a template literal: its decimal digits.\<close>

fun show_nat :: "nat \<Rightarrow> string" where
  "show_nat n =
     (if n < 10 then [char_of (48 + n)]
      else show_nat (n div 10) @ [char_of (48 + n mod 10)])"

definition show_int :: "int \<Rightarrow> string" where
  "show_int i = (if i < 0 then CHR ''-'' # show_nat (nat (- i)) else show_nat (nat i))"

section \<open>The media service\<close>

text \<open>
  What lies outside the program, for one run of a handler: whether the download from
  Telegram, the run of ffmpeg and the upload to the storage channel succeed, the name of
  the temporary file, and the file identifier Telegram gives the uploaded file.
\<close>

record env =
  download_ok :: bool
  download_path :: string
  ffmpeg_ok :: bool
  upload_ok :: bool
  upload_file_id :: string

definition downloadFile :: "env \<Rightarrow> string \<Rightarrow> error + string" where
  "downloadFile e fid = (if download_ok e then Inr (download_path e) else Inl DownloadFailed)"

definition getAvailableFormats :: "file_type \<Rightarrow> (string \<times> string) list" where
  "getAvailableFormats ft =
     (case ft of
        Video \<Rightarrow>
          [(''360p'', ''360p''), (''480p'', ''480p''), (''720p'', ''720p''),
           (''1080p'', ''1080p''), (''Extract MP3'', ''mp3'')]
      | Audio \<Rightarrow> [(''MP3'', ''mp3''), (''WAV'', ''wav''), (''OGG'', ''ogg'')])"

text \<open>
  The options the source sets on the ffmpeg command. \<open>size\<close> is the pair of width and
  height that the source prints as \<open>WxH\<close>, each \<open>None\<close> when it is \<open>NaN\<close>.
\<close>

record ffmpeg_command =
  noVideo :: bool
  videoCodec :: "string option"
  size :: "(int option \<times> int option) option"
  audioCodec :: string
  audioBitrate :: "int option"
  outFormat :: string

text \<open>
  A path in the temporary directory, as its name without extension and its extension.
  The names the source builds end with the extension it appends, so \<open>path.extname\<close>
  is that extension (the format is taken to contain no path separator).
\<close>

record temp_path =
  stem :: string
  ext :: string

text \<open>
  \<open>convertVideo\<close>: the command handed to ffmpeg and the result. The width is
  \<open>Math.floor(height * 16 / 9)\<close>, which on integers is integer division.
\<close>

definition convertVideo :: "env \<Rightarrow> string \<Rightarrow> string \<Rightarrow> ffmpeg_command \<times> (error + temp_path)" where
  "convertVideo e inputPath fmt =
     (let outputPath =
            \<lparr>stem = inputPath @ ''_'' @ fmt, ext = (if fmt = ''mp3'' then ''.mp3'' else ''.mp4'')\<rparr>;
          command =
            (if fmt = ''mp3'' then
               \<lparr>noVideo = True, videoCodec = None, size = None, audioCodec = ''libmp3lame'',
                audioBitrate = Some 192, outFormat = ''mp3''\<rparr>
             else
               (let height = parseInt (js_replace ''p'' '''' fmt);
                    width = map_option (\<lambda>h. (h * 16) div 9) height
                in \<lparr>noVideo = False, videoCodec = Some ''libx264'', size = Some (width, height),
                    audioCodec = ''aac'', audioBitrate = Some 128, outFormat = ''mp4''\<rparr>))
      in (command, if ffmpeg_ok e then Inr outputPath else Inl ConvertVideoFailed))"

text \<open>\<open>convertAudio\<close>: an unknown format is rejected before ffmpeg runs.\<close>

definition convertAudio :: "env \<Rightarrow> string \<Rightarrow> string \<Rightarrow> ffmpeg_command option \<times> (error + temp_path)" where
  "convertAudio e inputPath fmt =
     (let outputPath = \<lparr>stem = inputPath, ext = ''.'' @ fmt\<rparr>;
          base = \<lparr>noVideo = False, videoCodec = None, size = None, audioCodec = '''',
                  audioBitrate = None, outFormat = fmt\<rparr>;
          command =
            (if fmt = ''mp3'' then Some (base\<lparr>audioCodec := ''libmp3lame'', audioBitrate := Some 192\<rparr>)
             else if fmt = ''wav'' then Some (base\<lparr>audioCodec := ''pcm_s16le''\<rparr>)
             else if fmt = ''ogg'' then Some (base\<lparr>audioCodec := ''libvorbis'', audioBitrate := Some 192\<rparr>)
             else None)
      in case command of
           None \<Rightarrow> (None, Inl UnsupportedFormat)
         | Some c \<Rightarrow> (Some c, if ffmpeg_ok e then Inr outputPath else Inl ConvertAudioFailed))"

text \<open>The message Telegram returns for an upload: its identifier and the file it holds.\<close>

record message =
  m_message_id :: int
  m_video :: "string option"
  m_audio :: "string option"
  m_document :: "string option"

text \<open>\<open>message.video?.file_id || message.audio?.file_id || message.document?.file_id\<close>\<close>

definition message_file_id :: "message \<Rightarrow> string option" where
  "message_file_id m =
     (case m_video m of
        Some f \<Rightarrow> Some f
      | None \<Rightarrow> (case m_audio m of Some f \<Rightarrow> Some f | None \<Rightarrow> m_document m))"

text \<open>\<open>conversionsRef.add\<close>: the document gets a fresh identifier.\<close>

definition conversions_add :: "conv_doc \<Rightarrow> state \<Rightarrow> state" where
  "conversions_add doc st =
     st\<lparr>conversions := conversions st @ [(next_doc_id st, doc)],
        next_doc_id := Suc (next_doc_id st)\<rparr>"

text \<open>
  \<open>uploadToStorageChannel\<close>: the file is sent as video, audio or document by its
  extension (Telegram answers with a message of that kind), and the message is recorded
  with its expiry. A failed upload records nothing. The extensions that the converters
  append are in lower case already, so \<open>toLowerCase\<close> changes nothing; the caption is
  not part of the state.
\<close>

definition uploadToStorageChannel ::
    "config \<Rightarrow> env \<Rightarrow> time \<Rightarrow> temp_path \<Rightarrow> state \<Rightarrow> state \<times> (error + message)" where
  "uploadToStorageChannel cfg e now filePath st =
     (if \<not> upload_ok e then (st, Inl UploadFailed)
      else
        (let fileExt = ext filePath;
             mid = next_message_id st;
             none = \<lparr>m_message_id = mid, m_video = None, m_audio = None, m_document = None\<rparr>;
             message =
               (if fileExt \<in> set [''.mp4'', ''.avi'', ''.mov'', ''.mkv''] then
                  none\<lparr>m_video := Some (upload_file_id e)\<rparr>
                else if fileExt \<in> set [''.mp3'', ''.wav'', ''.ogg''] then
                  none\<lparr>m_audio := Some (upload_file_id e)\<rparr>
                else none\<lparr>m_document := Some (upload_file_id e)\<rparr>);
             st1 = st\<lparr>channel := channel st @ [mid], next_message_id := mid + 1\<rparr>;
             st2 =
               conversions_add
                 \<lparr>c_user_id = None, original_file_id = None, converted_file_id = None,
                  format = None, c_created_at = now, message_id = Some (m_message_id message),
                  chat_id = Some (STORAGE_CHANNEL_ID cfg), file_id = message_file_id message,
                  expires_at = Some (now + FILE_DELETE_AFTER_HOURS cfg * 60 * 60 * 1000)\<rparr>
                 st1
         in (st2, Inr message)))"

text \<open>
  \<open>bot.telegram.deleteMessage(...).catch(...)\<close>: whether Telegram deletes a message is
  outside the program (\<open>del_ok\<close>); a failure is logged and nothing else happens.
\<close>

definition deleteMessage :: "(int \<Rightarrow> bool) \<Rightarrow> int option \<Rightarrow> state \<Rightarrow> state" where
  "deleteMessage del_ok mid st =
     (case mid of
        None \<Rightarrow> st
      | Some m \<Rightarrow>
          if del_ok m \<and> m \<in> set (channel st) then st\<lparr>channel := removeAll m (channel st)\<rparr>
          else st)"

text \<open>\<open>conversionsRef.doc(id).delete()\<close>\<close>

definition conversions_delete :: "nat \<Rightarrow> state \<Rightarrow> state" where
  "conversions_delete i st = st\<lparr>conversions := AList.delete i (conversions st)\<rparr>"

text \<open>The query \<open>where('expires_at', '<=', now)\<close>: only documents that carry the field.\<close>

definition expired :: "time \<Rightarrow> conv_doc \<Rightarrow> bool" where
  "expired now d = (case expires_at d of None \<Rightarrow> False | Some t \<Rightarrow> t \<le> now)"

definition expiredFiles :: "time \<Rightarrow> state \<Rightarrow> (nat \<times> conv_doc) list" where
  "expiredFiles now st = filter (\<lambda>(i, d). expired now d) (conversions st)"

text \<open>
  \<open>cleanupOldFiles\<close>: for every expired document the message is deleted from the
  channel (a failure is swallowed) and the document is deleted; the result is the number
  of expired documents.
\<close>

definition cleanupOldFiles :: "(int \<Rightarrow> bool) \<Rightarrow> time \<Rightarrow> state \<Rightarrow> state \<times> nat" where
  "cleanupOldFiles del_ok now st =
     (let expiredFilesSnapshot = expiredFiles now st in
      if expiredFilesSnapshot = [] then (st, 0)
      else
        (fold (\<lambda>(i, d) s. conversions_delete i (deleteMessage del_ok (message_id d) s))
           expiredFilesSnapshot st,
         length expiredFilesSnapshot))"

section \<open>The handlers\<close>

text \<open>The sender and the chat of an update; telegraf keys the session by both.\<close>

record ctx =
  from_id :: int
  ctx_chat_id :: int

definition session_key :: "ctx \<Rightarrow> int \<times> int" where
  "session_key c = (from_id c, ctx_chat_id c)"

text \<open>The video, audio or document of an incoming message.\<close>

record media =
  file_id_in :: string
  file_name :: "string option"
  file_size :: "int option"
  mime_type :: "string option"

datatype reply =
  NotEnoughCredits
  | DailyLimitReached
  | FileTooLarge
  | SelectFormat "string list"
  | UnsupportedFileType
  | SessionExpired
  | Processing
  | ConversionFailed
  | ConvertedVideo string string int
  | ConvertedAudio string string int
  | Welcome int

text \<open>\<open>undefined <= n\<close> is false.\<close>

definition isFileSizeValid :: "config \<Rightarrow> int option \<Rightarrow> bool" where
  "isFileSizeValid cfg sz =
     (case sz of
        None \<Rightarrow> False
      | Some n \<Rightarrow> n \<le> MAX_FILE_SIZE_MB cfg * 1024 * 1024)"

text \<open>
  The body that \<open>videoHandler\<close>, \<open>audioHandler\<close> and the two branches of
  \<open>documentHandler\<close> each spell out; the copies differ in the file type and in the
  default file name only.
\<close>

definition mediaUpload :: "config \<Rightarrow> time \<Rightarrow> ctx \<Rightarrow> file_type \<Rightarrow> media \<Rightarrow> state \<Rightarrow> state \<times> reply list" where
  "mediaUpload cfg now c kind m st =
     (let userId = from_id c;
          (st1, user) = getOrCreateUser now userId no_user_data st
      in if credits user < CREDIT_PER_CONVERSION cfg then (st1, [NotEnoughCredits])
         else if checkDailyLimit cfg now userId st1 then (st1, [DailyLimitReached])
         else if \<not> isFileSizeValid cfg (file_size m) then (st1, [FileTooLarge])
         else
           (let fileInfo =
                  \<lparr>fileId = file_id_in m, fileType = kind,
                   fileName =
                     (case file_name m of
                        Some n \<Rightarrow> n
                      | None \<Rightarrow>
                          (case kind of
                             Video \<Rightarrow> ''video_'' @ show_int now @ ''.mp4''
                           | Audio \<Rightarrow> ''audio_'' @ show_int now @ ''.mp3'')),
                   fileSize = file_size m\<rparr>
            in (st1\<lparr>sessions := (sessions st1)(session_key c \<mapsto> fileInfo)\<rparr>,
                [SelectFormat (map snd (getAvailableFormats kind))])))"

definition videoHandler :: "config \<Rightarrow> time \<Rightarrow> ctx \<Rightarrow> media \<Rightarrow> state \<Rightarrow> state \<times> reply list" where
  "videoHandler cfg now c m st = mediaUpload cfg now c Video m st"

definition audioHandler :: "config \<Rightarrow> time \<Rightarrow> ctx \<Rightarrow> media \<Rightarrow> state \<Rightarrow> state \<times> reply list" where
  "audioHandler cfg now c m st = mediaUpload cfg now c Audio m st"

definition documentHandler :: "config \<Rightarrow> time \<Rightarrow> ctx \<Rightarrow> media \<Rightarrow> state \<Rightarrow> state \<times> reply list" where
  "documentHandler cfg now c m st =
     (let mimeType = (case mime_type m of None \<Rightarrow> '''' | Some t \<Rightarrow> t)
      in if startsWith mimeType ''video/'' then mediaUpload cfg now c Video m st
         else if startsWith mimeType ''audio/'' then mediaUpload cfg now c Audio m st
         else (st, [UnsupportedFileType]))"

text \<open>
  \<open>update({usage_count: increment(1)})\<close> on the user's document; Firestore rejects an
  update of a document that does not exist.
\<close>

definition usage_count_increment :: "int \<Rightarrow> state \<Rightarrow> state \<times> (error + unit)" where
  "usage_count_increment userId st =
     (case map_of (users st) userId of
        None \<Rightarrow> (st, Inl DocumentNotFound)
      | Some u \<Rightarrow> (users_set userId (u\<lparr>usage_count := usage_count u + 1\<rparr>) st, Inr ()))"

text \<open>
  \<open>convertHandler\<close>, the format selection. Every throw inside the \<open>try\<close> ends in the
  \<open>catch\<close>, which logs the error and replies that the conversion failed; what was
  written before the throw stays written. The session is deleted by the last statement
  of the \<open>try\<close>. The result is the state, the replies sent to the user and the errors
  logged.
\<close>

definition convertHandler ::
    "config \<Rightarrow> env \<Rightarrow> time \<Rightarrow> ctx \<Rightarrow> string \<Rightarrow> state \<Rightarrow> state \<times> reply list \<times> error list" where
  "convertHandler cfg e now c fmt st =
     (let userId = from_id c;
          (st0, user) = getOrCreateUser now userId no_user_data st
      in case sessions st0 (session_key c) of
           None \<Rightarrow> (st0, [SessionExpired], [])
         | Some fileInfo \<Rightarrow>
             (let caught = (\<lambda>s err. (s, [Processing, ConversionFailed], [err])) in
              case downloadFile e (fileId fileInfo) of
                Inl err \<Rightarrow> caught st0 err
              | Inr downloadedFilePath \<Rightarrow>
                  (case (case fileType fileInfo of
                           Video \<Rightarrow> snd (convertVideo e downloadedFilePath fmt)
                         | Audio \<Rightarrow> snd (convertAudio e downloadedFilePath fmt)) of
                     Inl err \<Rightarrow> caught st0 err
                   | Inr convertedFilePath \<Rightarrow>
                       (case uploadToStorageChannel cfg e now convertedFilePath st0 of
                          (st1, Inl err) \<Rightarrow> caught st1 err
                        | (st1, Inr message) \<Rightarrow>
                            (case updateCredits now userId (- CREDIT_PER_CONVERSION cfg) st1 of
                               (st2, Inl err) \<Rightarrow> caught st2 err
                             | (st2, Inr balance) \<Rightarrow>
                                 (case usage_count_increment userId st2 of
                                    (st3, Inl err) \<Rightarrow> caught st3 err
                                  | (st3, Inr u) \<Rightarrow>
                                      (let st4 =
                                             conversions_add
                                               \<lparr>c_user_id = Some userId,
                                                original_file_id = Some (fileId fileInfo),
                                                converted_file_id = message_file_id message,
                                                format = Some fmt, c_created_at = now,
                                                message_id = None, chat_id = None,
                                                file_id = None, expires_at = None\<rparr>
                                               st3;
                                           asVideo = (fileType fileInfo = Video \<and> fmt \<noteq> ''mp3'')
                                       in case (if asVideo then m_video message else m_audio message) of
                                            None \<Rightarrow> caught st4 TypeError
                                          | Some sent \<Rightarrow>
                                              (case updateCredits now userId 0 st4 of
                                                 (st5, Inl err) \<Rightarrow> caught st5 err
                                               | (st5, Inr remaining) \<Rightarrow>
                                                   (st5\<lparr>sessions := (sessions st5)(session_key c := None)\<rparr>,
                                                    [Processing,
                                                     if asVideo then ConvertedVideo sent fmt remaining
                                                     else ConvertedAudio sent fmt remaining],
                                                    [])))))))))"

text \<open>JavaScript's truth value of the parsed referrer: \<open>null\<close>, \<open>NaN\<close> and \<open>0\<close> are falsy.\<close>

definition js_truthy :: "int option \<Rightarrow> bool" where
  "js_truthy v = (case v of None \<Rightarrow> False | Some n \<Rightarrow> n \<noteq> 0)"

text \<open>
  \<open>startHandler\<close>. \<open>ctx.startPayload\<close> is \<open>None\<close> when the context carries no such
  property (\<open>undefined\<close>). The test \<open>user.created_at\<close> asks whether the returned user
  carries the field.
\<close>

definition startHandler ::
    "config \<Rightarrow> time \<Rightarrow> ctx \<Rightarrow> string \<Rightarrow> string option \<Rightarrow> state \<Rightarrow> state \<times> reply list" where
  "startHandler cfg now c uname startPayload st =
     (let userId = from_id c;
          referrerId =
            (case startPayload of
               None \<Rightarrow> None
             | Some p \<Rightarrow>
                 if p \<noteq> [] \<and> startsWith p ''ref_''
                 then parseInt (js_replace ''ref_'' '''' p) else None);
          (st1, user) =
            getOrCreateUser now userId \<lparr>ud_username = Some uname, ud_referrer_id = referrerId\<rparr> st;
          st2 =
            (if js_truthy referrerId \<and> created_at user \<noteq> None
             then fst (processReferral cfg now referrerId userId st1) else st1)
      in (st2, [Welcome (credits user)]))"



section \<open>Sequences of ledger operations\<close>

text \<open>
  The operations of the source that write \<open>credits\<close>: the creation of an account
  (\<open>getOrCreateUser\<close>), a debit or credit (\<open>updateCredits\<close>), a referral bonus
  (\<open>processReferral\<close>) and a reset (\<open>resetUser\<close>), each at its time.
\<close>

datatype ledger_op =
  Create int
  | Adjust int int
  | Referral "int option" int
  | Reset int

fun apply_op :: "config \<Rightarrow> time \<times> ledger_op \<Rightarrow> state \<Rightarrow> state" where
  "apply_op cfg (t, Create uid) st = fst (getOrCreateUser t uid no_user_data st)"
| "apply_op cfg (t, Adjust uid amount) st = fst (updateCredits t uid amount st)"
| "apply_op cfg (t, Referral referrerId newUserId) st =
     fst (processReferral cfg t referrerId newUserId st)"
| "apply_op cfg (t, Reset uid) st = fst (resetUser t uid st)"

fun run_ops :: "config \<Rightarrow> (time \<times> ledger_op) list \<Rightarrow> state \<Rightarrow> state" where
  "run_ops cfg [] st = st"
| "run_ops cfg (x # xs) st = run_ops cfg xs (apply_op cfg x st)"

text \<open>
  The deltas a sequence applies to the balance of account \<open>a\<close>: the amount of every
  \<open>updateCredits\<close> on \<open>a\<close> that did not fail, the bonus of every referral that
  \<open>processReferral\<close> awarded to \<open>a\<close>, and for every reset of \<open>a\<close> what takes the
  balance to 10.
\<close>

definition accepted :: "error + 'a \<Rightarrow> bool" where
  "accepted r = (case r of Inl err \<Rightarrow> False | Inr v \<Rightarrow> True)"

fun delta_of :: "config \<Rightarrow> int \<Rightarrow> time \<times> ledger_op \<Rightarrow> state \<Rightarrow> int list" where
  "delta_of cfg a (t, Adjust uid amount) st =
     (if uid = a \<and> accepted (snd (updateCredits t uid amount st)) then [amount] else [])"
| "delta_of cfg a (t, Referral referrerId newUserId) st =
     (if referrerId = Some a \<and> snd (processReferral cfg t referrerId newUserId st)
      then [REFERRAL_BONUS cfg] else [])"
| "delta_of cfg a (t, Create uid) st = []"
| "delta_of cfg a (t, Reset uid) st =
     (case map_of (users st) uid of
        None \<Rightarrow> []
      | Some u \<Rightarrow> if uid = a then [10 - credits u] else [])"

fun applied_deltas :: "config \<Rightarrow> int \<Rightarrow> (time \<times> ledger_op) list \<Rightarrow> state \<Rightarrow> int list" where
  "applied_deltas cfg a [] st = []"
| "applied_deltas cfg a (x # xs) st =
     delta_of cfg a x st @ applied_deltas cfg a xs (apply_op cfg x st)"

definition credits_nonneg :: "state \<Rightarrow> bool" where
  "credits_nonneg st = list_all (\<lambda>(i, u). 0 \<le> credits u) (users st)"

section \<open>Example states\<close>

definition ex_user :: "int \<Rightarrow> int \<Rightarrow> user_doc" where
  "ex_user uid c =
     \<lparr>user_id = uid, credits = c, referrals = 0, usage_count = 0, last_activity = 0,
      created_at = Some 0, username = None, referrer_id = None\<rparr>"

text \<open>User 1 holds 10 credits, user 2 holds none; nothing was converted yet.\<close>

definition ex_state :: state where
  "ex_state =
     \<lparr>users = [(1, ex_user 1 10), (2, ex_user 2 0)], conversions = [], next_doc_id = 0,
      sessions = (\<lambda>k. None), channel = [], next_message_id = 1\<rparr>"

definition ex_config :: config where
  "ex_config =
     \<lparr>CREDIT_PER_CONVERSION = 1, REFERRAL_BONUS = 5, MAX_FILE_SIZE_MB = 20,
      FILE_DELETE_AFTER_HOURS = 2, DAILY_LIMIT = 3, STORAGE_CHANNEL_ID = - 100,
      TZ_OFFSET_MS = 0\<rparr>"

text \<open>
  A debit of user 1, a debit of user 2 that is rejected, a referral bonus for user 1, the
  creation of user 7, a debit of user 1 that is rejected, a reset of user 2 and a credit
  of user 2.
\<close>

definition ex_ops :: "(time \<times> ledger_op) list" where
  "ex_ops =
     [(1, Adjust 1 (- 3)), (2, Adjust 2 (- 1)), (3, Referral (Some 1) 7), (4, Create 7),
      (5, Adjust 1 (- 20)), (6, Reset 2), (7, Adjust 2 4)]"

text \<open>User 2, who holds no credits, writing in the private chat.\<close>

definition ex_ctx2 :: ctx where
  "ex_ctx2 = \<lparr>from_id = 2, ctx_chat_id = 2\<rparr>"

text \<open>User 7, not yet known, writing in the private chat.\<close>

definition ex_ctx7 :: ctx where
  "ex_ctx7 = \<lparr>from_id = 7, ctx_chat_id = 7\<rparr>"

text \<open>
  The handler called with a context on which \<open>startPayload\<close> is the referral link of
  user 1, at time 100. The start command of the program never makes this call.
\<close>

definition ex_joined :: state where
  "ex_joined = fst (startHandler ex_config 100 ex_ctx7 ''bob'' (Some ''ref_1'') ex_state)"


text \<open>
  User 1 sends a video in the private chat at time 1000 and selects 720p at time 2000;
  download, transcoding and upload succeed.
\<close>

definition ex_ctx1 :: ctx where
  "ex_ctx1 = \<lparr>from_id = 1, ctx_chat_id = 1\<rparr>"

definition ex_video :: media where
  "ex_video =
     \<lparr>file_id_in = ''F1'', file_name = Some ''clip.mov'', file_size = Some 1000,
      mime_type = Some ''video/quicktime''\<rparr>"

definition ex_env :: env where
  "ex_env =
     \<lparr>download_ok = True, download_path = ''1000_42'', ffmpeg_ok = True, upload_ok = True,
      upload_file_id = ''S1''\<rparr>"

definition ex_uploaded :: state where
  "ex_uploaded = fst (videoHandler ex_config 1000 ex_ctx1 ex_video ex_state)"

definition ex_converted :: state where
  "ex_converted = fst (convertHandler ex_config ex_env 2000 ex_ctx1 ''720p'' ex_uploaded)"

text \<open>The two documents that the conversion adds.\<close>

definition ex_stage_doc :: conv_doc where
  "ex_stage_doc =
     \<lparr>c_user_id = None, original_file_id = None, converted_file_id = None, format = None,
      c_created_at = 2000, message_id = Some 1, chat_id = Some (- 100), file_id = Some ''S1'',
      expires_at = Some 7202000\<rparr>"

definition ex_usage_doc :: conv_doc where
  "ex_usage_doc =
     \<lparr>c_user_id = Some 1, original_file_id = Some ''F1'', converted_file_id = Some ''S1'',
      format = Some ''720p'', c_created_at = 2000, message_id = None, chat_id = None,
      file_id = None, expires_at = None\<rparr>"

section \<open>The documents a conversion writes\<close>

text \<open>
  The document that \<open>uploadToStorageChannel\<close> adds at time \<open>now\<close> in state \<open>st\<close>, and
  the document that \<open>convertHandler\<close> adds after the debit.
\<close>

definition stage_doc_of :: "config \<Rightarrow> env \<Rightarrow> time \<Rightarrow> state \<Rightarrow> conv_doc" where
  "stage_doc_of cfg e now st =
     \<lparr>c_user_id = None, original_file_id = None, converted_file_id = None, format = None,
      c_created_at = now, message_id = Some (next_message_id st),
      chat_id = Some (STORAGE_CHANNEL_ID cfg), file_id = Some (upload_file_id e),
      expires_at = Some (now + FILE_DELETE_AFTER_HOURS cfg * 60 * 60 * 1000)\<rparr>"

definition usage_doc_of :: "env \<Rightarrow> time \<Rightarrow> int \<Rightarrow> file_info \<Rightarrow> string \<Rightarrow> conv_doc" where
  "usage_doc_of e now userId fi fmt =
     \<lparr>c_user_id = Some userId, original_file_id = Some (fileId fi),
      converted_file_id = Some (upload_file_id e), format = Some fmt, c_created_at = now,
      message_id = None, chat_id = None, file_id = None, expires_at = None\<rparr>"

text \<open>The reply that delivers the converted file.\<close>

definition delivered :: "env \<Rightarrow> file_info \<Rightarrow> string \<Rightarrow> int \<Rightarrow> reply" where
  "delivered e fi fmt remaining =
     (if fileType fi = Video \<and> fmt \<noteq> ''mp3'' then ConvertedVideo (upload_file_id e) fmt remaining
      else ConvertedAudio (upload_file_id e) fmt remaining)"

text \<open>The path of the converted file, as \<open>convertVideo\<close> and \<open>convertAudio\<close> build it.\<close>

definition converted_path :: "env \<Rightarrow> file_info \<Rightarrow> string \<Rightarrow> temp_path" where
  "converted_path e fi fmt =
     (case fileType fi of
        Video \<Rightarrow> \<lparr>stem = download_path e @ ''_'' @ fmt,
                   ext = (if fmt = ''mp3'' then ''.mp3'' else ''.mp4'')\<rparr>
      | Audio \<Rightarrow> \<lparr>stem = download_path e, ext = ''.'' @ fmt\<rparr>)"

text \<open>The same run of the handler, with a download that fails.\<close>

definition ex_env_down :: env where
  "ex_env_down = ex_env\<lparr>download_ok := False\<rparr>"

definition ex_file_info :: file_info where
  "ex_file_info =
     \<lparr>fileId = ''F1'', fileType = Video, fileName = ''clip.mov'', fileSize = Some 1000\<rparr>"

text \<open>
  User 3 holds one credit and sends the video twice, in the private chat and in a group;
  each chat has a session of its own. The selection in the private chat spends the
  credit; the selection in the group comes after it.
\<close>

definition ex_one_credit :: state where
  "ex_one_credit =
     \<lparr>users = [(3, ex_user 3 1)], conversions = [], next_doc_id = 0,
      sessions = (\<lambda>k. None), channel = [], next_message_id = 1\<rparr>"

definition ex_ctx3 :: ctx where
  "ex_ctx3 = \<lparr>from_id = 3, ctx_chat_id = 3\<rparr>"

definition ex_ctx3g :: ctx where
  "ex_ctx3g = \<lparr>from_id = 3, ctx_chat_id = - 30\<rparr>"

definition ex_two_sessions :: state where
  "ex_two_sessions =
     fst (videoHandler ex_config 1100 ex_ctx3g ex_video
            (fst (videoHandler ex_config 1000 ex_ctx3 ex_video ex_one_credit)))"

definition ex_spent :: state where
  "ex_spent = fst (convertHandler ex_config ex_env 2000 ex_ctx3 ''720p'' ex_two_sessions)"

text \<open>
  Firestore gives every document an identifier of its own: the identifiers in use are
  distinct, and \<open>next_doc_id\<close> is above them.
\<close>

definition ids_fresh :: "state \<Rightarrow> bool" where
  "ids_fresh st =
     (distinct (map fst (conversions st)) \<and>
      list_all (\<lambda>i. i < next_doc_id st) (map fst (conversions st)))"

section \<open>Conversions of one day\<close>

text \<open>
  A user sends the same video and selects the same format again and again: for every
  pair of times the upload at the first time and the format selection at the second.
  The result is the final state and whether every upload was accepted and every
  selection was delivered.
\<close>

fun conversions_in_a_day ::
    "config \<Rightarrow> env \<Rightarrow> ctx \<Rightarrow> media \<Rightarrow> string \<Rightarrow> (time \<times> time) list \<Rightarrow> state \<Rightarrow> state \<times> bool" where
  "conversions_in_a_day cfg e c m fmt [] st = (st, True)"
| "conversions_in_a_day cfg e c m fmt ((t1, t2) # ts) st =
     (let up = videoHandler cfg t1 c m st;
          sel = convertHandler cfg e t2 c fmt (fst up);
          rest = conversions_in_a_day cfg e c m fmt ts (fst sel)
      in (fst rest,
          snd up = [SelectFormat (map snd (getAvailableFormats Video))] \<and>
          snd (snd sel) = [] \<and> fst (snd sel) \<noteq> [SessionExpired] \<and> snd rest))"

text \<open>Three conversions of user 1 within the first day, and the same limit set to 0.\<close>

definition ex_day :: "(time \<times> time) list" where
  "ex_day = [(1000, 2000), (3000, 4000), (5000, 6000)]"

definition ex_config_closed :: config where
  "ex_config_closed = ex_config\<lparr>DAILY_LIMIT := 0\<rparr>"

text \<open>
  User 1 first sends the video in a group, which opens a session there, and then converts
  three times in the private chat on the same day.
\<close>

definition ex_ctx1g :: ctx where
  "ex_ctx1g = \<lparr>from_id = 1, ctx_chat_id = - 10\<rparr>"

definition ex_three_done :: state where
  "ex_three_done =
     fst (conversions_in_a_day ex_config ex_env ex_ctx1 ex_video ''720p'' ex_day
            (fst (videoHandler ex_config 500 ex_ctx1g ex_video ex_state)))"

section \<open>Writes to the users collection\<close>

lemma users_set_lookup:
  "map_of (users (users_set k v st)) k' = (if k' = k then Some v else map_of (users st) k')"
  by (simp add: users_set_def update_conv')

lemma users_set_other:
  "conversions (users_set k v st) = conversions st"
  "next_doc_id (users_set k v st) = next_doc_id st"
  "sessions (users_set k v st) = sessions st"
  "channel (users_set k v st) = channel st"
  "next_message_id (users_set k v st) = next_message_id st"
  by (simp_all add: users_set_def)

section \<open>The credit ledger\<close>

text \<open>
  C1. \<open>updateCredits\<close> is one read-modify-write on the stored balance: for an unknown
  user it fails with \<open>UserNotFound\<close> and the state is the one it started from; when
  balance plus amount is negative it fails with \<open>InsufficientCredits\<close> and the state is
  the one it started from; otherwise it returns balance plus amount, which is then the
  stored balance of that user, and nothing else but the user's \<open>last_activity\<close> changes.
\<close>

theorem updateCredits_read_modify_write:
  "(map_of (users st) userId = None \<longrightarrow>
      updateCredits now userId amount st = (st, Inl UserNotFound)) \<and>
   (\<forall>u. map_of (users st) userId = Some u \<and> credits u + amount < 0 \<longrightarrow>
      updateCredits now userId amount st = (st, Inl InsufficientCredits)) \<and>
   (\<forall>u. map_of (users st) userId = Some u \<and> 0 \<le> credits u + amount \<longrightarrow>
      (\<exists>st'. updateCredits now userId amount st = (st', Inr (credits u + amount)) \<and>
         map_of (users st') userId =
           Some (u\<lparr>credits := credits u + amount, last_activity := now\<rparr>) \<and>
         (\<forall>v. v \<noteq> userId \<longrightarrow> map_of (users st') v = map_of (users st) v) \<and>
         conversions st' = conversions st \<and> next_doc_id st' = next_doc_id st \<and>
         sessions st' = sessions st \<and> channel st' = channel st \<and>
         next_message_id st' = next_message_id st))"
  by (simp add: updateCredits_def Let_def users_set_lookup users_set_other)

text \<open>The three outcomes in the example state: an unknown user, user 2 without credits, and user 1.\<close>

theorem updateCredits_read_modify_write_witness:
  "updateCredits 5 3 (- 1) ex_state = (ex_state, Inl UserNotFound) \<and>
   updateCredits 5 2 (- 1) ex_state = (ex_state, Inl InsufficientCredits) \<and>
   snd (updateCredits 5 1 (- 1) ex_state) = Inr 9 \<and>
   map_option credits (map_of (users (fst (updateCredits 5 1 (- 1) ex_state))) 1) = Some 9"
proof -
  have n3: "map_of (users ex_state) 3 = None"
    by (simp add: ex_state_def)
  have s2: "map_of (users ex_state) 2 = Some (ex_user 2 0) \<and> credits (ex_user 2 0) + (- 1) < 0"
    by (simp add: ex_state_def ex_user_def)
  have s1: "map_of (users ex_state) 1 = Some (ex_user 1 10) \<and> 0 \<le> credits (ex_user 1 10) + (- 1)"
    by (simp add: ex_state_def ex_user_def)
  note rmw3 = updateCredits_read_modify_write [of ex_state 3 5 "- 1"]
  note rmw2 = updateCredits_read_modify_write [of ex_state 2 5 "- 1"]
  note rmw1 = updateCredits_read_modify_write [of ex_state 1 5 "- 1"]
  from rmw3 n3 have a: "updateCredits 5 3 (- 1) ex_state = (ex_state, Inl UserNotFound)"
    by blast
  from rmw2 s2 have b: "updateCredits 5 2 (- 1) ex_state = (ex_state, Inl InsufficientCredits)"
    by blast
  from rmw1 s1 obtain st' where
    c: "updateCredits 5 1 (- 1) ex_state = (st', Inr (credits (ex_user 1 10) + (- 1)))" and
    d: "map_of (users st') 1 =
          Some ((ex_user 1 10)\<lparr>credits := credits (ex_user 1 10) + (- 1), last_activity := 5\<rparr>)"
    by blast
  from a b c d show ?thesis
    by (simp add: ex_user_def)
qed

section \<open>The balance is never negative\<close>

lemma set_update_subset: "set (AList.update k v al) \<subseteq> insert (k, v) (set al)"
  by (induction al) auto

lemma credits_nonneg_users_set:
  "credits_nonneg st \<Longrightarrow> 0 \<le> credits v \<Longrightarrow> credits_nonneg (users_set k v st)"
  using set_update_subset [of k v "users st"]
  by (auto simp: credits_nonneg_def users_set_def list_all_iff)

lemma credits_nonneg_lookup:
  "credits_nonneg st \<Longrightarrow> map_of (users st) k = Some u \<Longrightarrow> 0 \<le> credits u"
  by (auto simp: credits_nonneg_def list_all_iff dest: map_of_SomeD)

lemma apply_op_nonneg:
  assumes "0 \<le> REFERRAL_BONUS cfg" and "credits_nonneg st"
  shows "credits_nonneg (apply_op cfg x st)"
proof (cases x)
  case (Pair t op)
  show ?thesis
  proof (cases op)
    case (Create uid)
    with Pair assms show ?thesis
      by (auto simp: getOrCreateUser_def Let_def split: option.splits
          intro!: credits_nonneg_users_set dest: credits_nonneg_lookup)
  next
    case (Adjust uid amount)
    with Pair assms show ?thesis
      by (auto simp: updateCredits_def Let_def split: option.splits
          intro!: credits_nonneg_users_set)
  next
    case (Referral r n)
    with Pair assms show ?thesis
      by (auto simp: processReferral_def Let_def split: option.splits
          intro!: credits_nonneg_users_set dest: credits_nonneg_lookup)
  next
    case (Reset uid)
    with Pair assms show ?thesis
      by (auto simp: resetUser_def Let_def split: option.splits
          intro!: credits_nonneg_users_set)
  qed
qed

lemma run_ops_nonneg:
  "0 \<le> REFERRAL_BONUS cfg \<Longrightarrow> credits_nonneg st \<Longrightarrow> credits_nonneg (run_ops cfg ops st)"
  by (induction ops arbitrary: st) (simp_all add: apply_op_nonneg)

lemma apply_op_balance:
  assumes "map_of (users st) a = Some u"
  shows "\<exists>u'. map_of (users (apply_op cfg x st)) a = Some u' \<and>
               credits u' = credits u + sum_list (delta_of cfg a x st)"
proof (cases x)
  case (Pair t op)
  show ?thesis
  proof (cases op)
    case (Create uid)
    with Pair assms show ?thesis
      by (auto simp: getOrCreateUser_def Let_def users_set_lookup split: option.splits)
  next
    case (Adjust uid amount)
    with Pair assms show ?thesis
      by (auto simp: updateCredits_def Let_def users_set_lookup accepted_def split: option.splits)
  next
    case (Referral r n)
    with Pair assms show ?thesis
      by (auto simp: processReferral_def Let_def users_set_lookup split: option.splits)
  next
    case (Reset uid)
    with Pair assms show ?thesis
      by (auto simp: resetUser_def Let_def users_set_lookup split: option.splits)
  qed
qed

lemma run_ops_balance:
  "map_of (users st) a = Some u \<Longrightarrow>
   map_option credits (map_of (users (run_ops cfg ops st)) a) =
     Some (credits u + sum_list (applied_deltas cfg a ops st))"
proof (induction ops arbitrary: st u)
  case Nil
  then show ?case by simp
next
  case (Cons x xs)
  from apply_op_balance [OF Cons.prems(1), of cfg x] obtain u' where
    u': "map_of (users (apply_op cfg x st)) a = Some u'"
      "credits u' = credits u + sum_list (delta_of cfg a x st)"
    by blast
  from Cons.IH [OF u'(1)] u'(2) show ?case
    by (simp add: add.assoc)
qed

text \<open>
  C8. With a referral bonus that is not negative, as the configuration requires, and from
  a state in which no stored balance is negative, every sequence of account creations,
  debits and credits, referral bonuses and resets leads to a state in which no stored
  balance is negative; as this holds for every sequence, it holds in every state on the
  way. A reader sees no negative balance there: not in a lookup, not in the user that
  \<open>getOrCreateUser\<close> returns, not in the balance that \<open>updateCredits\<close> returns. And
  for an account that exists at the start, the final balance is the initial balance plus
  the sum of the deltas that were applied: the amounts of the calls of \<open>updateCredits\<close>
  that were not rejected, the bonuses awarded, and for a reset what takes the balance to
  10.
\<close>

theorem credits_never_negative:
  assumes "0 \<le> REFERRAL_BONUS cfg" and "credits_nonneg st"
  shows "credits_nonneg (run_ops cfg ops st) \<and>
    (\<forall>uid u. map_of (users (run_ops cfg ops st)) uid = Some u \<longrightarrow> 0 \<le> credits u) \<and>
    (\<forall>t uid ud. 0 \<le> credits (snd (getOrCreateUser t uid ud (run_ops cfg ops st)))) \<and>
    (\<forall>t uid amount b.
        snd (updateCredits t uid amount (run_ops cfg ops st)) = Inr b \<longrightarrow> 0 \<le> b) \<and>
    (\<forall>a u. map_of (users st) a = Some u \<longrightarrow>
        map_option credits (map_of (users (run_ops cfg ops st)) a) =
          Some (credits u + sum_list (applied_deltas cfg a ops st)))"
proof -
  let ?st' = "run_ops cfg ops st"
  have inv: "credits_nonneg ?st'"
    using assms by (rule run_ops_nonneg)
  have look: "\<forall>uid u. map_of (users ?st') uid = Some u \<longrightarrow> 0 \<le> credits u"
    using inv by (blast dest: credits_nonneg_lookup)
  have rd: "\<forall>t uid ud. 0 \<le> credits (snd (getOrCreateUser t uid ud ?st'))"
    using look by (auto simp: getOrCreateUser_def Let_def split: option.splits)
  have up: "\<forall>t uid amount b. snd (updateCredits t uid amount ?st') = Inr b \<longrightarrow> 0 \<le> b"
    by (auto simp: updateCredits_def Let_def split: option.splits if_splits)
  have sm: "\<forall>a u. map_of (users st) a = Some u \<longrightarrow>
        map_option credits (map_of (users ?st') a) =
          Some (credits u + sum_list (applied_deltas cfg a ops st))"
    using run_ops_balance by blast
  from inv look rd up sm show ?thesis
    by blast
qed

text \<open>The example sequence: two debits are rejected, and the balances of users 1 and 2 end at 12 and 14.\<close>

theorem credits_never_negative_witness:
  "0 \<le> REFERRAL_BONUS ex_config \<and> credits_nonneg ex_state \<and>
   credits_nonneg (run_ops ex_config ex_ops ex_state) \<and>
   applied_deltas ex_config 1 ex_ops ex_state = [- 3, 5] \<and>
   map_option credits (map_of (users (run_ops ex_config ex_ops ex_state)) 1) = Some 12 \<and>
   applied_deltas ex_config 2 ex_ops ex_state = [10, 4] \<and>
   map_option credits (map_of (users (run_ops ex_config ex_ops ex_state)) 2) = Some 14 \<and>
   snd (updateCredits 9 1 (- 2) (run_ops ex_config ex_ops ex_state)) = Inr 10 \<and>
   snd (updateCredits 9 1 (- 13) (run_ops ex_config ex_ops ex_state)) = Inl InsufficientCredits"
proof -
  have b: "0 \<le> REFERRAL_BONUS ex_config"
    by (simp add: ex_config_def)
  have n: "credits_nonneg ex_state"
    by (simp add: credits_nonneg_def ex_state_def ex_user_def)
  have u: "map_of (users ex_state) 1 = Some (ex_user 1 10)"
    by (simp add: ex_state_def)
  have u2: "map_of (users ex_state) 2 = Some (ex_user 2 0)"
    by (simp add: ex_state_def)
  have d2: "applied_deltas ex_config 2 ex_ops ex_state = [10, 4]"
    by (simp add: ex_ops_def ex_state_def ex_config_def ex_user_def updateCredits_def
        processReferral_def getOrCreateUser_def resetUser_def users_set_def no_user_data_def
        accepted_def Let_def)
  have d: "applied_deltas ex_config 1 ex_ops ex_state = [- 3, 5]"
    by (simp add: ex_ops_def ex_state_def ex_config_def ex_user_def updateCredits_def
        processReferral_def getOrCreateUser_def resetUser_def users_set_def no_user_data_def
        accepted_def Let_def)
  note main = credits_never_negative [OF b n, of ex_ops]
  from main have inv: "credits_nonneg (run_ops ex_config ex_ops ex_state)"
    by blast
  from main u2 have
    "map_option credits (map_of (users (run_ops ex_config ex_ops ex_state)) 2) =
       Some (credits (ex_user 2 0) + sum_list (applied_deltas ex_config 2 ex_ops ex_state))"
    by blast
  with d2 have s2: "map_option credits (map_of (users (run_ops ex_config ex_ops ex_state)) 2) = Some 14"
    by (simp add: ex_user_def)
  from main u have
    "map_option credits (map_of (users (run_ops ex_config ex_ops ex_state)) 1) =
       Some (credits (ex_user 1 10) + sum_list (applied_deltas ex_config 1 ex_ops ex_state))"
    by blast
  with d have s: "map_option credits (map_of (users (run_ops ex_config ex_ops ex_state)) 1) = Some 12"
    by (simp add: ex_user_def)
  from s obtain v where v: "map_of (users (run_ops ex_config ex_ops ex_state)) 1 = Some v"
    and cv: "credits v = 12"
    by auto
  have r1: "snd (updateCredits 9 1 (- 2) (run_ops ex_config ex_ops ex_state)) = Inr 10"
    by (simp add: updateCredits_def v cv Let_def)
  with main have "(0::int) \<le> 10"
    by blast
  have r2: "snd (updateCredits 9 1 (- 13) (run_ops ex_config ex_ops ex_state)) =
      Inl InsufficientCredits"
    by (simp add: updateCredits_def v cv Let_def)
  from b n inv d s d2 s2 r1 r2 show ?thesis
    by blast
qed

section \<open>Transcoding profiles\<close>

lemma parse_heights:
  "parseInt ''360'' = Some 360"
  "parseInt ''480'' = Some 480"
  "parseInt ''720'' = Some 720"
  "parseInt ''1080'' = Some 1080"
  by (simp_all add: parseInt_def js_whitespace_def digit_value_def digits_value_def Let_def)

text \<open>
  C9. For each of the resolution profiles 360p, 480p, 720p and 1080p the command that
  \<open>convertVideo\<close> hands to ffmpeg keeps the video stream, encodes it with libx264 at
  the size whose height is the requested one and whose width is the floor of height times
  16 over 9 (640, 853, 1280 and 1920), and encodes the audio with aac at the fixed bitrate
  128; for mp3 the command drops the video stream and encodes audio only (libmp3lame at
  192).
\<close>

theorem convertVideo_profiles:
  "fst (convertVideo e inputPath ''360p'') =
     \<lparr>noVideo = False, videoCodec = Some ''libx264'',
      size = Some (Some \<lfloor>360 * 16 / 9 :: real\<rfloor>, Some 360),
      audioCodec = ''aac'', audioBitrate = Some 128, outFormat = ''mp4''\<rparr> \<and>
   fst (convertVideo e inputPath ''480p'') =
     \<lparr>noVideo = False, videoCodec = Some ''libx264'',
      size = Some (Some \<lfloor>480 * 16 / 9 :: real\<rfloor>, Some 480),
      audioCodec = ''aac'', audioBitrate = Some 128, outFormat = ''mp4''\<rparr> \<and>
   fst (convertVideo e inputPath ''720p'') =
     \<lparr>noVideo = False, videoCodec = Some ''libx264'',
      size = Some (Some \<lfloor>720 * 16 / 9 :: real\<rfloor>, Some 720),
      audioCodec = ''aac'', audioBitrate = Some 128, outFormat = ''mp4''\<rparr> \<and>
   fst (convertVideo e inputPath ''1080p'') =
     \<lparr>noVideo = False, videoCodec = Some ''libx264'',
      size = Some (Some \<lfloor>1080 * 16 / 9 :: real\<rfloor>, Some 1080),
      audioCodec = ''aac'', audioBitrate = Some 128, outFormat = ''mp4''\<rparr> \<and>
   map (\<lambda>f. size (fst (convertVideo e inputPath f))) [''360p'', ''480p'', ''720p'', ''1080p''] =
     [Some (Some 640, Some 360), Some (Some 853, Some 480), Some (Some 1280, Some 720),
      Some (Some 1920, Some 1080)] \<and>
   fst (convertVideo e inputPath ''mp3'') =
     \<lparr>noVideo = True, videoCodec = None, size = None, audioCodec = ''libmp3lame'',
      audioBitrate = Some 192, outFormat = ''mp3''\<rparr>"
  by (simp add: convertVideo_def parse_heights Let_def)

section \<open>Reading or creating a user\<close>

lemma getOrCreateUser_other:
  "conversions (fst (getOrCreateUser now uid ud st)) = conversions st"
  "next_doc_id (fst (getOrCreateUser now uid ud st)) = next_doc_id st"
  "sessions (fst (getOrCreateUser now uid ud st)) = sessions st"
  "channel (fst (getOrCreateUser now uid ud st)) = channel st"
  "next_message_id (fst (getOrCreateUser now uid ud st)) = next_message_id st"
  by (simp_all add: getOrCreateUser_def users_set_other Let_def split: option.splits)

lemma getOrCreateUser_lookup:
  "map_of (users (fst (getOrCreateUser now uid ud st))) k =
     (if k = uid then Some ((snd (getOrCreateUser now uid ud st))\<lparr>last_activity := now\<rparr>)
      else map_of (users st) k)"
  by (simp add: getOrCreateUser_def users_set_lookup Let_def split: option.splits)

section \<open>Referrals\<close>










text \<open>
  What the test \<open>user.created_at\<close> would let through if a context did carry the
  payload: the account of user 7 exists after the first call and carries \<open>created_at\<close>,
  and a second call with the same payload credits user 1 again. No start command of the
  program reaches this, as \<open>on_start_command\<close> passes no payload.
\<close>

lemma parse_ref_1: "parseInt ''1'' = Some 1"
  by (simp add: parseInt_def js_whitespace_def digit_value_def digits_value_def Let_def)

lemma ex_joined_users:
  "users ex_joined =
     [(1, (ex_user 1 10)\<lparr>referrals := 1, credits := 15, last_activity := 100\<rparr>),
      (2, ex_user 2 0),
      (7, \<lparr>user_id = 7, credits = 10, referrals = 0, usage_count = 0, last_activity = 100,
           created_at = Some 100, username = Some ''bob'', referrer_id = Some 1\<rparr>)]"
  by (simp add: ex_joined_def startHandler_def startsWith_def parse_ref_1 js_truthy_def
      getOrCreateUser_def processReferral_def users_set_def ex_state_def ex_config_def
      ex_ctx7_def ex_user_def Let_def)

lemma startHandler_with_payload_awards_again:
  "map_option credits (map_of (users ex_joined) 1) = Some 15 \<and>
   map_option referrals (map_of (users ex_joined) 1) = Some 1 \<and>
   map_option credits
     (map_of (users (fst (startHandler ex_config 200 ex_ctx7 ''bob'' (Some ''ref_1'') ex_joined))) 1) =
     Some 20 \<and>
   map_option referrals
     (map_of (users (fst (startHandler ex_config 200 ex_ctx7 ''bob'' (Some ''ref_1'') ex_joined))) 1) =
     Some 2"
  by (simp add: ex_joined_users startHandler_def startsWith_def parse_ref_1 js_truthy_def
      getOrCreateUser_def processReferral_def users_set_def ex_state_def ex_config_def
      ex_ctx7_def ex_user_def Let_def)

section \<open>The example conversion, evaluated\<close>

lemmas user_service_defs =
  getOrCreateUser_def updateCredits_def usage_count_increment_def users_set_def
  no_user_data_def checkDailyLimit_def todayConversions_def startOfDay_def

lemmas media_service_defs =
  downloadFile_def convertVideo_def convertAudio_def uploadToStorageChannel_def
  conversions_add_def message_file_id_def

lemmas ex_defs =
  ex_state_def ex_user_def ex_config_def ex_ctx1_def ex_video_def ex_env_def

lemma ex_uploaded_eq:
  "ex_uploaded =
     \<lparr>users = [(1, (ex_user 1 10)\<lparr>last_activity := 1000\<rparr>), (2, ex_user 2 0)],
      conversions = [], next_doc_id = 0,
      sessions = (\<lambda>k. None)((1, 1) \<mapsto>
        \<lparr>fileId = ''F1'', fileType = Video, fileName = ''clip.mov'', fileSize = Some 1000\<rparr>),
      channel = [], next_message_id = 1\<rparr>"
  by (simp add: ex_uploaded_def videoHandler_def mediaUpload_def isFileSizeValid_def
      session_key_def getAvailableFormats_def user_service_defs ex_defs Let_def)

lemma ex_converted_eq:
  "ex_converted =
     \<lparr>users = [(1, (ex_user 1 9)\<lparr>usage_count := 1, last_activity := 2000\<rparr>), (2, ex_user 2 0)],
      conversions = [(0, ex_stage_doc), (1, ex_usage_doc)], next_doc_id = 2,
      sessions = (\<lambda>k. None),
      channel = [1], next_message_id = 2\<rparr>"
  by (simp add: ex_converted_def ex_uploaded_eq convertHandler_def session_key_def
      user_service_defs media_service_defs ex_defs ex_stage_doc_def ex_usage_doc_def Let_def
      fun_eq_iff)

section \<open>The storage sweep\<close>

lemma deleteMessage_conversions: "conversions (deleteMessage del_ok m st) = conversions st"
  by (simp add: deleteMessage_def split: option.splits)

lemma conversions_delete_conversions:
  "conversions (conversions_delete i st) = filter (\<lambda>(k, d). k \<noteq> i) (conversions st)"
  by (auto simp: conversions_delete_def AList.delete_eq intro: filter_cong)

lemma fold_sweep_conversions:
  "conversions (fold (\<lambda>(i, d) s. conversions_delete i (deleteMessage del_ok (message_id d) s)) xs st) =
     filter (\<lambda>(i, d). i \<notin> fst ` set xs) (conversions st)"
proof (induction xs arbitrary: st)
  case Nil
  then show ?case by simp
next
  case (Cons x xs)
  let ?F = "\<lambda>(i, d) s. conversions_delete i (deleteMessage del_ok (message_id d) s)"
  obtain i d where x: "x = (i, d)" by (cases x)
  have "conversions (fold ?F (x # xs) st) =
          conversions (fold ?F xs (conversions_delete i (deleteMessage del_ok (message_id d) st)))"
    by (simp add: x)
  also have "\<dots> = filter (\<lambda>(k, d). k \<notin> fst ` set xs)
                      (conversions (conversions_delete i (deleteMessage del_ok (message_id d) st)))"
    by (rule Cons.IH)
  also have "\<dots> = filter (\<lambda>(k, d). k \<notin> fst ` set (x # xs)) (conversions st)"
    by (auto simp: x conversions_delete_conversions deleteMessage_conversions intro: filter_cong)
  finally show ?case .
qed

lemma fold_sweep_channel_kept:
  "m \<in> set (channel st) \<Longrightarrow> \<not> del_ok m \<Longrightarrow>
   m \<in> set (channel (fold (\<lambda>(i, d) s. conversions_delete i (deleteMessage del_ok (message_id d) s)) xs st))"
proof (induction xs arbitrary: st)
  case Nil
  then show ?case by simp
next
  case (Cons x xs)
  obtain i d where x: "x = (i, d)" by (cases x)
  have "m \<in> set (channel (conversions_delete i (deleteMessage del_ok (message_id d) st)))"
    using Cons.prems
    by (auto simp: conversions_delete_def deleteMessage_def split: option.splits)
  from Cons.IH [OF this Cons.prems(2)] show ?case
    by (simp add: x)
qed

lemma cleanup_conversions:
  "conversions (fst (cleanupOldFiles del_ok now st)) =
     filter (\<lambda>(i, d). i \<notin> fst ` set (expiredFiles now st)) (conversions st)"
  by (simp add: cleanupOldFiles_def Let_def fold_sweep_conversions)

lemma cleanup_count: "snd (cleanupOldFiles del_ok now st) = length (expiredFiles now st)"
  by (simp add: cleanupOldFiles_def Let_def)

lemma cleanup_none_left: "expiredFiles now (fst (cleanupOldFiles del_ok now st)) = []"
proof -
  have "\<And>i d. (i, d) \<in> set (conversions st) \<Longrightarrow> expired now d \<Longrightarrow>
          i \<in> fst ` set (expiredFiles now st)"
    by (force simp: expiredFiles_def)
  then show ?thesis
    by (auto simp: expiredFiles_def [of now "fst (cleanupOldFiles del_ok now st)"]
        cleanup_conversions filter_empty_conv)
qed

lemma cleanup_keeps_others:
  assumes "distinct (map fst (conversions st))"
  shows "conversions (fst (cleanupOldFiles del_ok now st)) =
           filter (\<lambda>(i, d). \<not> expired now d) (conversions st)"
proof -
  have "\<And>i d. (i, d) \<in> set (conversions st) \<Longrightarrow>
          (i \<notin> fst ` set (expiredFiles now st)) = (\<not> expired now d)"
  proof -
    fix i d assume m: "(i, d) \<in> set (conversions st)"
    show "(i \<notin> fst ` set (expiredFiles now st)) = (\<not> expired now d)"
    proof
      assume "i \<notin> fst ` set (expiredFiles now st)"
      with m show "\<not> expired now d" by (force simp: expiredFiles_def)
    next
      assume ne: "\<not> expired now d"
      show "i \<notin> fst ` set (expiredFiles now st)"
      proof
        assume "i \<in> fst ` set (expiredFiles now st)"
        then obtain d' where d': "(i, d') \<in> set (conversions st)" "expired now d'"
          by (auto simp: expiredFiles_def)
        from assms m d'(1) have "d = d'"
          by (meson eq_key_imp_eq_value)
        with ne d'(2) show False by simp
      qed
    qed
  qed
  then show ?thesis
    unfolding cleanup_conversions
    by (intro filter_cong) auto
qed


text \<open>
  C4, as the code has it. A run of \<open>cleanupOldFiles\<close> deletes the document of every
  expired record, whether or not Telegram deleted the message: after the run no document
  is expired at that time, whatever \<open>del_ok\<close> says. The result is the number of expired
  documents. A second run at the same time finds nothing, returns 0 and changes nothing,
  and no later run finds a document under an identifier the first run reclaimed: a record
  is reclaimed at most once. A message that Telegram refuses to delete stays in the
  channel, with no document left that names it.
\<close>

theorem cleanupOldFiles_deletes_every_expired_record:
  "expiredFiles now (fst (cleanupOldFiles del_ok now st)) = [] \<and>
   snd (cleanupOldFiles del_ok now st) = length (expiredFiles now st) \<and>
   cleanupOldFiles del_ok' now (fst (cleanupOldFiles del_ok now st)) =
     (fst (cleanupOldFiles del_ok now st), 0) \<and>
   (\<forall>now'. fst ` set (expiredFiles now' (fst (cleanupOldFiles del_ok now st))) \<inter>
            fst ` set (expiredFiles now st) = {}) \<and>
   (\<forall>m. m \<in> set (channel st) \<and> \<not> del_ok m \<longrightarrow>
        m \<in> set (channel (fst (cleanupOldFiles del_ok now st))))"
proof -
  let ?st' = "fst (cleanupOldFiles del_ok now st)"
  have none: "expiredFiles now ?st' = []"
    by (rule cleanup_none_left)
  have again: "cleanupOldFiles del_ok' now ?st' = (?st', 0)"
    using none by (simp add: cleanupOldFiles_def [of del_ok' now ?st'] Let_def)
  have disj: "\<forall>now'. fst ` set (expiredFiles now' ?st') \<inter> fst ` set (expiredFiles now st) = {}"
    by (force simp: expiredFiles_def [of _ ?st'] cleanup_conversions)
  have kept: "\<forall>m. m \<in> set (channel st) \<and> \<not> del_ok m \<longrightarrow> m \<in> set (channel ?st')"
    by (auto simp: cleanupOldFiles_def Let_def fold_sweep_channel_kept)
  from none cleanup_count again disj kept show ?thesis
    by blast
qed

lemma ex_expired: "expiredFiles 7202000 ex_converted = [(0, ex_stage_doc)]"
  by (simp add: expiredFiles_def expired_def ex_converted_eq ex_stage_doc_def ex_usage_doc_def)

text \<open>The sweep after the example conversion, with every deletion refused by Telegram.\<close>

theorem cleanupOldFiles_deletes_every_expired_record_witness:
  "1 \<in> set (channel ex_converted) \<and>
   expiredFiles 7202000 ex_converted = [(0, ex_stage_doc)] \<and>
   expiredFiles 7202000 (fst (cleanupOldFiles (\<lambda>m. False) 7202000 ex_converted)) = [] \<and>
   snd (cleanupOldFiles (\<lambda>m. False) 7202000 ex_converted) = 1 \<and>
   1 \<in> set (channel (fst (cleanupOldFiles (\<lambda>m. False) 7202000 ex_converted)))"
proof -
  have c: "1 \<in> set (channel ex_converted)"
    by (simp add: ex_converted_eq)
  note main =
    cleanupOldFiles_deletes_every_expired_record [of 7202000 "\<lambda>m. False" ex_converted "\<lambda>m. False"]
  from main have a: "expiredFiles 7202000 (fst (cleanupOldFiles (\<lambda>m. False) 7202000 ex_converted)) = []"
    by blast
  from main have b: "snd (cleanupOldFiles (\<lambda>m. False) 7202000 ex_converted) = 1"
    by (simp add: ex_expired)
  from main c have d: "1 \<in> set (channel (fst (cleanupOldFiles (\<lambda>m. False) 7202000 ex_converted)))"
    by blast
  from a b c d ex_expired show ?thesis
    by blast
qed

text \<open>
  C4, as the claim has it, fails. After the example conversion the record of the staged
  message 1 expires at 7202000. The sweep runs then and Telegram refuses every deletion:
  the message is still in the channel, yet the record is gone, so no later run can reach
  it.
\<close>

theorem cleanupOldFiles_record_not_left_counterexample:
  "expired 7202000 ex_stage_doc \<and>
   map_of (conversions ex_converted) 0 = Some ex_stage_doc \<and>
   channel ex_converted = [1] \<and>
   channel (fst (cleanupOldFiles (\<lambda>m. False) 7202000 ex_converted)) = [1] \<and>
   map_of (conversions (fst (cleanupOldFiles (\<lambda>m. False) 7202000 ex_converted))) 0 = None \<and>
   conversions (fst (cleanupOldFiles (\<lambda>m. False) 7202000 ex_converted)) = [(1, ex_usage_doc)] \<and>
   snd (cleanupOldFiles (\<lambda>m. False) 7202000 ex_converted) = 1"
proof -
  have "cleanupOldFiles (\<lambda>m. False) 7202000 ex_converted =
          (conversions_delete 0 (deleteMessage (\<lambda>m. False) (message_id ex_stage_doc) ex_converted), 1)"
    by (simp add: cleanupOldFiles_def ex_expired Let_def)
  then show ?thesis
    by (simp add: conversions_delete_def deleteMessage_def ex_converted_eq expired_def
        ex_stage_doc_def)
qed

section \<open>The steps of the pipeline\<close>

lemma upload_ok_result:
  assumes "upload_ok e"
  shows "\<exists>st' m. uploadToStorageChannel cfg e now p st = (st', Inr m) \<and>
     m_message_id m = next_message_id st \<and>
     message_file_id m = Some (upload_file_id e) \<and>
     m_video m = (if ext p \<in> set [''.mp4'', ''.avi'', ''.mov'', ''.mkv''] then Some (upload_file_id e) else None) \<and>
     m_audio m = (if ext p \<in> set [''.mp4'', ''.avi'', ''.mov'', ''.mkv''] then None
                  else if ext p \<in> set [''.mp3'', ''.wav'', ''.ogg''] then Some (upload_file_id e) else None) \<and>
     users st' = users st \<and> sessions st' = sessions st \<and>
     conversions st' = conversions st @ [(next_doc_id st, stage_doc_of cfg e now st)] \<and>
     next_doc_id st' = Suc (next_doc_id st) \<and>
     channel st' = channel st @ [next_message_id st] \<and>
     next_message_id st' = next_message_id st + 1"
  using assms
  by (simp add: uploadToStorageChannel_def conversions_add_def message_file_id_def
      stage_doc_of_def Let_def)


lemma convert_ok_result:
  assumes "ffmpeg_ok e" and "fileType fi = Audio \<longrightarrow> fmt \<in> set [''mp3'', ''wav'', ''ogg'']"
  shows "(case fileType fi of
            Video \<Rightarrow> snd (convertVideo e (download_path e) fmt)
          | Audio \<Rightarrow> snd (convertAudio e (download_path e) fmt)) = Inr (converted_path e fi fmt)"
  using assms
  by (auto simp: convertVideo_def convertAudio_def converted_path_def Let_def
      split: file_type.splits)

lemma converted_path_kind:
  assumes "fileType fi = Audio \<longrightarrow> fmt \<in> set [''mp3'', ''wav'', ''ogg'']"
  shows "(ext (converted_path e fi fmt) \<in> set [''.mp4'', ''.avi'', ''.mov'', ''.mkv'']) =
           (fileType fi = Video \<and> fmt \<noteq> ''mp3'')"
    and "fileType fi = Video \<and> fmt \<noteq> ''mp3'' \<or>
         ext (converted_path e fi fmt) \<in> set [''.mp3'', ''.wav'', ''.ogg'']"
  using assms
  by (auto simp: converted_path_def split: file_type.splits)

lemma convertHandler_debit_fails:
  assumes ses: "sessions st (session_key c) = Some fi"
    and ok: "download_ok e" "ffmpeg_ok e" "upload_ok e"
    and fm: "fileType fi = Audio \<longrightarrow> fmt \<in> set [''mp3'', ''wav'', ''ogg'']"
    and low: "credits (snd (getOrCreateUser now (from_id c) no_user_data st)) < CREDIT_PER_CONVERSION cfg"
  shows "\<exists>st'. convertHandler cfg e now c fmt st =
           (st', [Processing, ConversionFailed], [InsufficientCredits]) \<and>
         users st' = users (fst (getOrCreateUser now (from_id c) no_user_data st)) \<and>
         sessions st' = sessions st \<and>
         conversions st' = conversions st @ [(next_doc_id st, stage_doc_of cfg e now st)] \<and>
         next_doc_id st' = Suc (next_doc_id st) \<and>
         channel st' = channel st @ [next_message_id st] \<and>
         next_message_id st' = next_message_id st + 1"
proof -
  define st0 where "st0 = fst (getOrCreateUser now (from_id c) no_user_data st)"
  define u0 where "u0 = snd (getOrCreateUser now (from_id c) no_user_data st)"
  have g: "getOrCreateUser now (from_id c) no_user_data st = (st0, u0)"
    by (simp add: st0_def u0_def)
  have s0: "sessions st0 (session_key c) = Some fi"
    by (simp add: st0_def getOrCreateUser_other ses)
  have l0: "map_of (users st0) (from_id c) = Some (u0\<lparr>last_activity := now\<rparr>)"
    by (simp add: st0_def u0_def getOrCreateUser_lookup)
  note cv = convert_ok_result [OF ok(2) fm]
  from upload_ok_result [OF ok(3), of cfg now "converted_path e fi fmt" st0]
  obtain st1 m where
    up: "uploadToStorageChannel cfg e now (converted_path e fi fmt) st0 = (st1, Inr m)" and
    u1: "users st1 = users st0" and
    r1: "sessions st1 = sessions st0"
      "conversions st1 = conversions st0 @ [(next_doc_id st0, stage_doc_of cfg e now st0)]"
      "next_doc_id st1 = Suc (next_doc_id st0)"
      "channel st1 = channel st0 @ [next_message_id st0]"
      "next_message_id st1 = next_message_id st0 + 1"
    by blast
  have deb: "updateCredits now (from_id c) (- CREDIT_PER_CONVERSION cfg) st1 =
               (st1, Inl InsufficientCredits)"
    using low by (simp add: updateCredits_def u1 l0 Let_def u0_def)
  have "convertHandler cfg e now c fmt st = (st1, [Processing, ConversionFailed], [InsufficientCredits])"
    by (simp add: convertHandler_def g s0 downloadFile_def ok(1) cv up deb Let_def)
  with u1 r1 show ?thesis
    by (simp add: st0_def getOrCreateUser_other stage_doc_of_def)
qed


lemma convertHandler_settles:
  assumes ses: "sessions st (session_key c) = Some fi"
    and ok: "download_ok e" "ffmpeg_ok e" "upload_ok e"
    and fm: "fileType fi = Audio \<longrightarrow> fmt \<in> set [''mp3'', ''wav'', ''ogg'']"
    and enough: "CREDIT_PER_CONVERSION cfg \<le> credits (snd (getOrCreateUser now (from_id c) no_user_data st))"
  shows "\<exists>st'. convertHandler cfg e now c fmt st =
           (st', [Processing,
                  delivered e fi fmt
                    (credits (snd (getOrCreateUser now (from_id c) no_user_data st)) -
                     CREDIT_PER_CONVERSION cfg)], []) \<and>
         (\<forall>k. map_of (users st') k =
            (if k = from_id c
             then Some ((snd (getOrCreateUser now (from_id c) no_user_data st))
                     \<lparr>credits := credits (snd (getOrCreateUser now (from_id c) no_user_data st)) -
                                 CREDIT_PER_CONVERSION cfg,
                      usage_count := usage_count (snd (getOrCreateUser now (from_id c) no_user_data st)) + 1,
                      last_activity := now\<rparr>)
             else map_of (users st) k)) \<and>
         sessions st' = (sessions st)(session_key c := None) \<and>
         conversions st' =
           conversions st @
             [(next_doc_id st, stage_doc_of cfg e now st),
              (Suc (next_doc_id st), usage_doc_of e now (from_id c) fi fmt)] \<and>
         next_doc_id st' = Suc (Suc (next_doc_id st)) \<and>
         channel st' = channel st @ [next_message_id st] \<and>
         next_message_id st' = next_message_id st + 1"
proof -
  define st0 where "st0 = fst (getOrCreateUser now (from_id c) no_user_data st)"
  define u0 where "u0 = snd (getOrCreateUser now (from_id c) no_user_data st)"
  define cost where "cost = CREDIT_PER_CONVERSION cfg"
  have g: "getOrCreateUser now (from_id c) no_user_data st = (st0, u0)"
    by (simp add: st0_def u0_def)
  have s0: "sessions st0 (session_key c) = Some fi"
    by (simp add: st0_def getOrCreateUser_other ses)
  have l0: "map_of (users st0) (from_id c) = Some (u0\<lparr>last_activity := now\<rparr>)"
    by (simp add: st0_def u0_def getOrCreateUser_lookup)
  have o0: "\<And>k. k \<noteq> from_id c \<Longrightarrow> map_of (users st0) k = map_of (users st) k"
    by (simp add: st0_def getOrCreateUser_lookup)
  note cv = convert_ok_result [OF ok(2) fm]
  note kind = converted_path_kind [OF fm, of e]
  from upload_ok_result [OF ok(3), of cfg now "converted_path e fi fmt" st0]
  obtain st1 m where
    up: "uploadToStorageChannel cfg e now (converted_path e fi fmt) st0 = (st1, Inr m)" and
    m0: "message_file_id m = Some (upload_file_id e)"
       "m_video m = (if ext (converted_path e fi fmt) \<in> set [''.mp4'', ''.avi'', ''.mov'', ''.mkv'']
                     then Some (upload_file_id e) else None)"
       "m_audio m = (if ext (converted_path e fi fmt) \<in> set [''.mp4'', ''.avi'', ''.mov'', ''.mkv'']
                     then None
                     else if ext (converted_path e fi fmt) \<in> set [''.mp3'', ''.wav'', ''.ogg'']
                     then Some (upload_file_id e) else None)" and
    u1: "users st1 = users st0" and
    r1: "sessions st1 = sessions st0"
      "conversions st1 = conversions st0 @ [(next_doc_id st0, stage_doc_of cfg e now st0)]"
      "next_doc_id st1 = Suc (next_doc_id st0)"
      "channel st1 = channel st0 @ [next_message_id st0]"
      "next_message_id st1 = next_message_id st0 + 1"
    by blast
  have m: "message_file_id m = Some (upload_file_id e)"
       "m_video m = (if fileType fi = Video \<and> fmt \<noteq> ''mp3'' then Some (upload_file_id e) else None)"
       "m_audio m = (if fileType fi = Video \<and> fmt \<noteq> ''mp3'' then None else Some (upload_file_id e))"
    using kind m0 by (auto simp del: set_simps)
  define v2 where "v2 = u0\<lparr>credits := credits u0 - cost, last_activity := now\<rparr>"
  define st2 where "st2 = users_set (from_id c) v2 st1"
  have deb: "updateCredits now (from_id c) (- cost) st1 = (st2, Inr (credits u0 - cost))"
    using enough by (simp add: updateCredits_def u1 l0 Let_def u0_def cost_def st2_def v2_def)
  define v3 where "v3 = v2\<lparr>usage_count := usage_count u0 + 1\<rparr>"
  define st3 where "st3 = users_set (from_id c) v3 st2"
  have inc: "usage_count_increment (from_id c) st2 = (st3, Inr ())"
    by (simp add: usage_count_increment_def st2_def users_set_lookup st3_def v3_def v2_def)
  define st4 where "st4 =
    conversions_add
      \<lparr>c_user_id = Some (from_id c), original_file_id = Some (fileId fi),
       converted_file_id = message_file_id m, format = Some fmt, c_created_at = now,
       message_id = None, chat_id = None, file_id = None, expires_at = None\<rparr> st3"
  have l4: "map_of (users st4) (from_id c) = Some v3"
    by (simp add: st4_def conversions_add_def st3_def users_set_lookup)
  define st5 where "st5 = users_set (from_id c) v3 st4"
  have enough': "cost \<le> credits u0"
    using enough by (simp add: cost_def u0_def)
  have c3: "credits v3 = credits u0 - cost"
    by (simp add: v3_def v2_def)
  have e3: "v3\<lparr>credits := credits u0 - cost, last_activity := now\<rparr> = v3"
    by (cases u0) (simp add: v3_def v2_def)
  have rem: "updateCredits now (from_id c) 0 st4 = (st5, Inr (credits u0 - cost))"
    using enough'
    by (simp add: updateCredits_def l4 Let_def st5_def c3 e3)
  have res: "convertHandler cfg e now c fmt st =
          (st5\<lparr>sessions := (sessions st5)(session_key c := None)\<rparr>,
           [Processing, delivered e fi fmt (credits u0 - cost)], [])"
    using deb inc rem
    by (simp add: convertHandler_def g s0 downloadFile_def ok(1) cv up m Let_def cost_def
        st4_def delivered_def)
  have users5: "\<And>k. map_of (users st5) k =
      (if k = from_id c then Some v3 else map_of (users st) k)"
    by (simp add: st5_def st4_def st3_def st2_def users_set_lookup conversions_add_def u1 o0)
  have rest5: "sessions st5 = sessions st"
    "conversions st5 = conversions st @
       [(next_doc_id st, stage_doc_of cfg e now st),
        (Suc (next_doc_id st), usage_doc_of e now (from_id c) fi fmt)]"
    "next_doc_id st5 = Suc (Suc (next_doc_id st))"
    "channel st5 = channel st @ [next_message_id st]"
    "next_message_id st5 = next_message_id st + 1"
    by (simp_all add: st5_def st4_def st3_def st2_def users_set_other users_set_def
        conversions_add_def r1 st0_def getOrCreateUser_other stage_doc_of_def usage_doc_of_def m)
  show ?thesis
    unfolding res
    using users5 rest5
    by (simp add: v3_def v2_def u0_def cost_def)
qed

section \<open>Sessions\<close>

lemma step_sessions:
  "sessions (fst (updateCredits now uid a st)) = sessions st"
  "sessions (fst (usage_count_increment uid st)) = sessions st"
  "sessions (fst (uploadToStorageChannel cfg e now p st)) = sessions st"
  "sessions (conversions_add d st) = sessions st"
  by (simp_all add: updateCredits_def usage_count_increment_def uploadToStorageChannel_def
      conversions_add_def users_set_other Let_def split: option.splits)

lemma convertHandler_outcomes:
  "(sessions st (session_key c) = None \<and>
      convertHandler cfg e now c fmt st =
        (fst (getOrCreateUser now (from_id c) no_user_data st), [SessionExpired], [])) \<or>
   (sessions st (session_key c) \<noteq> None \<and>
      (\<exists>st' err. convertHandler cfg e now c fmt st = (st', [Processing, ConversionFailed], [err]) \<and>
         sessions st' = sessions st)) \<or>
   (sessions st (session_key c) \<noteq> None \<and>
      (\<exists>st' r. convertHandler cfg e now c fmt st = (st', [Processing, r], []) \<and>
         r \<noteq> ConversionFailed \<and> sessions st' = (sessions st)(session_key c := None)))"
  by (auto simp: convertHandler_def Let_def split_beta step_sessions getOrCreateUser_other
      split: option.splits sum.splits)


text \<open>
  C2, as the code has it. A format selection with no session is rejected as an expired
  session and touches neither the sessions, the conversions nor the channel. A format
  selection whose pipeline runs to delivery (no error is logged) deletes the session, and
  every later format selection on the resulting state is rejected as an expired session:
  two selections of one session do not both succeed. A format selection whose pipeline
  fails replies that the conversion failed and leaves the sessions as they were, so the
  session can be used again.
\<close>

theorem session_consumed_on_delivery_only:
  "case convertHandler cfg e now c fmt st of
     (st', replies, errs) \<Rightarrow>
       (sessions st (session_key c) = None \<longrightarrow>
          replies = [SessionExpired] \<and> errs = [] \<and> sessions st' = sessions st \<and>
          conversions st' = conversions st \<and> channel st' = channel st) \<and>
       (sessions st (session_key c) \<noteq> None \<and> errs = [] \<longrightarrow>
          sessions st' = (sessions st)(session_key c := None) \<and>
          (\<forall>e' now' fmt'. snd (convertHandler cfg e' now' c fmt' st') = ([SessionExpired], []))) \<and>
       (sessions st (session_key c) \<noteq> None \<and> errs \<noteq> [] \<longrightarrow>
          replies = [Processing, ConversionFailed] \<and> sessions st' = sessions st)"
proof -
  have gone: "\<And>st' e' now' fmt'. sessions st' (session_key c) = None \<Longrightarrow>
      snd (convertHandler cfg e' now' c fmt' st') = ([SessionExpired], [])"
  proof -
    fix st' :: state and e' now' fmt'
    assume "sessions st' (session_key c) = None"
    with convertHandler_outcomes [of st' c cfg e' now' fmt'] show
      "snd (convertHandler cfg e' now' c fmt' st') = ([SessionExpired], [])"
      by auto
  qed
  from convertHandler_outcomes [of st c cfg e now fmt] show ?thesis
  proof (elim disjE conjE exE)
    assume "sessions st (session_key c) = None"
      and "convertHandler cfg e now c fmt st =
             (fst (getOrCreateUser now (from_id c) no_user_data st), [SessionExpired], [])"
    then show ?thesis
      by (simp add: getOrCreateUser_other)
  next
    fix st' err
    assume "sessions st (session_key c) \<noteq> None"
      and "convertHandler cfg e now c fmt st = (st', [Processing, ConversionFailed], [err])"
      and "sessions st' = sessions st"
    then show ?thesis
      by simp
  next
    fix st' r
    assume "sessions st (session_key c) \<noteq> None"
      and "convertHandler cfg e now c fmt st = (st', [Processing, r], [])"
      and "r \<noteq> ConversionFailed"
      and s: "sessions st' = (sessions st)(session_key c := None)"
    moreover from s have "sessions st' (session_key c) = None"
      by simp
    ultimately show ?thesis
      using gone by simp
  qed
qed

lemma ex_session: "sessions ex_uploaded (session_key ex_ctx1) = Some ex_file_info"
  by (simp add: ex_uploaded_eq session_key_def ex_ctx1_def ex_file_info_def)

lemma ex_download_fails:
  "convertHandler ex_config ex_env_down 2000 ex_ctx1 ''720p'' ex_uploaded =
     (fst (getOrCreateUser 2000 1 no_user_data ex_uploaded),
      [Processing, ConversionFailed], [DownloadFailed])"
  by (simp add: convertHandler_def ex_session getOrCreateUser_other split_beta downloadFile_def
      ex_env_down_def ex_env_def Let_def)
    (simp add: ex_ctx1_def)

text \<open>
  C2, as the claim has it, fails. User 1 has uploaded a video and selects 720p; the
  download fails. The session is still there, and the next selection of 720p converts the
  same upload.
\<close>

theorem session_reused_after_failure_counterexample:
  "sessions ex_uploaded (session_key ex_ctx1) = Some ex_file_info \<and>
   snd (convertHandler ex_config ex_env_down 2000 ex_ctx1 ''720p'' ex_uploaded) =
     ([Processing, ConversionFailed], [DownloadFailed]) \<and>
   sessions (fst (convertHandler ex_config ex_env_down 2000 ex_ctx1 ''720p'' ex_uploaded))
     (session_key ex_ctx1) = Some ex_file_info \<and>
   snd (convertHandler ex_config ex_env 3000 ex_ctx1 ''720p''
          (fst (convertHandler ex_config ex_env_down 2000 ex_ctx1 ''720p'' ex_uploaded))) =
     ([Processing, ConvertedVideo ''S1'' ''720p'' 9], [])"
  by (simp add: ex_download_fails ex_session getOrCreateUser_other)
    (simp add: convertHandler_def session_key_def user_service_defs media_service_defs ex_defs
      ex_uploaded_eq Let_def)

text \<open>No session, a delivered selection, and a selection whose download fails.\<close>

theorem session_consumed_on_delivery_only_witness:
  "sessions ex_state (session_key ex_ctx1) = None \<and>
   fst (snd (convertHandler ex_config ex_env 2000 ex_ctx1 ''720p'' ex_state)) = [SessionExpired] \<and>
   sessions ex_uploaded (session_key ex_ctx1) \<noteq> None \<and>
   snd (snd (convertHandler ex_config ex_env 2000 ex_ctx1 ''720p'' ex_uploaded)) = [] \<and>
   sessions ex_converted (session_key ex_ctx1) = None \<and>
   snd (convertHandler ex_config ex_env 3000 ex_ctx1 ''480p'' ex_converted) = ([SessionExpired], []) \<and>
   snd (snd (convertHandler ex_config ex_env_down 2000 ex_ctx1 ''720p'' ex_uploaded)) \<noteq> [] \<and>
   sessions (fst (convertHandler ex_config ex_env_down 2000 ex_ctx1 ''720p'' ex_uploaded)) =
     sessions ex_uploaded"
proof -
  have n: "sessions ex_state (session_key ex_ctx1) = None"
    by (simp add: ex_state_def)
  have s: "sessions ex_uploaded (session_key ex_ctx1) \<noteq> None"
    by (simp add: ex_session)
  have ok: "snd (snd (convertHandler ex_config ex_env 2000 ex_ctx1 ''720p'' ex_uploaded)) = []"
    by (simp add: convertHandler_def session_key_def user_service_defs media_service_defs ex_defs
      ex_uploaded_eq Let_def)
  have bad: "snd (snd (convertHandler ex_config ex_env_down 2000 ex_ctx1 ''720p'' ex_uploaded)) \<noteq> []"
    by (simp add: ex_download_fails)
  from session_consumed_on_delivery_only
         [where cfg = ex_config and e = ex_env and now = 2000 and c = ex_ctx1
            and fmt = "''720p''" and st = ex_state]
       n
  have a: "fst (snd (convertHandler ex_config ex_env 2000 ex_ctx1 ''720p'' ex_state)) = [SessionExpired]"
    by (simp add: split_beta)
  from session_consumed_on_delivery_only
         [where cfg = ex_config and e = ex_env and now = 2000 and c = ex_ctx1
            and fmt = "''720p''" and st = ex_uploaded]
       s ok
  have b: "sessions ex_converted = (sessions ex_uploaded)(session_key ex_ctx1 := None)"
    and c: "\<forall>e' now' fmt'.
          snd (convertHandler ex_config e' now' ex_ctx1 fmt' ex_converted) = ([SessionExpired], [])"
    by (simp_all add: split_beta ex_converted_def)
  from session_consumed_on_delivery_only
         [where cfg = ex_config and e = ex_env_down and now = 2000 and c = ex_ctx1
            and fmt = "''720p''" and st = ex_uploaded]
       s bad
  have d: "sessions (fst (convertHandler ex_config ex_env_down 2000 ex_ctx1 ''720p'' ex_uploaded)) =
     sessions ex_uploaded"
    by (simp add: split_beta)
  from b have b': "sessions ex_converted (session_key ex_ctx1) = None"
    by simp
  from n a s ok b' c bad d show ?thesis
    by blast
qed

section \<open>Stage before settlement\<close>

text \<open>
  C5. Whenever the pipeline reaches the upload and the upload succeeds, the document with
  \<open>expires_at = now + FILE_DELETE_AFTER_HOURS\<close> hours is the first document the run
  appends, and the uploaded message is in the channel. If the balance does not cover the
  cost, the debit fails after that: the document is the only one appended and stays, the
  balance is what it was, no usage document is written, and the error raised and logged
  is \<open>InsufficientCredits\<close> (the reply to the user is the general failure message).
  If the balance covers the cost, the usage document comes after the stage document and
  the balance is debited.
\<close>

theorem stage_record_stands_when_debit_fails:
  assumes "sessions st (session_key c) = Some fi"
    and "download_ok e" and "ffmpeg_ok e" and "upload_ok e"
    and "fileType fi = Audio \<longrightarrow> fmt \<in> set [''mp3'', ''wav'', ''ogg'']"
  shows "case convertHandler cfg e now c fmt st of
     (st', replies, errs) \<Rightarrow>
       expires_at (stage_doc_of cfg e now st) =
         Some (now + FILE_DELETE_AFTER_HOURS cfg * 60 * 60 * 1000) \<and>
       message_id (stage_doc_of cfg e now st) = Some (next_message_id st) \<and>
       take (Suc (length (conversions st))) (conversions st') =
         conversions st @ [(next_doc_id st, stage_doc_of cfg e now st)] \<and>
       channel st' = channel st @ [next_message_id st] \<and>
       (credits (snd (getOrCreateUser now (from_id c) no_user_data st)) < CREDIT_PER_CONVERSION cfg \<longrightarrow>
          errs = [InsufficientCredits] \<and> replies = [Processing, ConversionFailed] \<and>
          conversions st' = conversions st @ [(next_doc_id st, stage_doc_of cfg e now st)] \<and>
          map_option credits (map_of (users st') (from_id c)) =
            Some (credits (snd (getOrCreateUser now (from_id c) no_user_data st)))) \<and>
       (CREDIT_PER_CONVERSION cfg \<le> credits (snd (getOrCreateUser now (from_id c) no_user_data st)) \<longrightarrow>
          errs = [] \<and>
          conversions st' =
            conversions st @
              [(next_doc_id st, stage_doc_of cfg e now st),
               (Suc (next_doc_id st), usage_doc_of e now (from_id c) fi fmt)] \<and>
          map_option credits (map_of (users st') (from_id c)) =
            Some (credits (snd (getOrCreateUser now (from_id c) no_user_data st)) -
                  CREDIT_PER_CONVERSION cfg))"
proof (cases "credits (snd (getOrCreateUser now (from_id c) no_user_data st)) < CREDIT_PER_CONVERSION cfg")
  case True
  from convertHandler_debit_fails [OF assms True] obtain st' where
    "convertHandler cfg e now c fmt st = (st', [Processing, ConversionFailed], [InsufficientCredits])"
    "users st' = users (fst (getOrCreateUser now (from_id c) no_user_data st))"
    "conversions st' = conversions st @ [(next_doc_id st, stage_doc_of cfg e now st)]"
    "channel st' = channel st @ [next_message_id st]"
    by blast
  with True show ?thesis
    by (simp add: getOrCreateUser_lookup stage_doc_of_def)
next
  case False
  then have enough: "CREDIT_PER_CONVERSION cfg \<le> credits (snd (getOrCreateUser now (from_id c) no_user_data st))"
    by simp
  from convertHandler_settles [OF assms enough] obtain st' r where
    "convertHandler cfg e now c fmt st = (st', [Processing, r], [])"
    "\<forall>k. map_of (users st') k =
            (if k = from_id c
             then Some ((snd (getOrCreateUser now (from_id c) no_user_data st))
                     \<lparr>credits := credits (snd (getOrCreateUser now (from_id c) no_user_data st)) -
                                 CREDIT_PER_CONVERSION cfg,
                      usage_count := usage_count (snd (getOrCreateUser now (from_id c) no_user_data st)) + 1,
                      last_activity := now\<rparr>)
             else map_of (users st) k)"
    "conversions st' =
           conversions st @
             [(next_doc_id st, stage_doc_of cfg e now st),
              (Suc (next_doc_id st), usage_doc_of e now (from_id c) fi fmt)]"
    "channel st' = channel st @ [next_message_id st]"
    by blast
  with enough show ?thesis
    by (simp add: stage_doc_of_def)
qed

lemma ex_two_sessions_eq:
  "ex_two_sessions =
     \<lparr>users = [(3, (ex_user 3 1)\<lparr>last_activity := 1100\<rparr>)],
      conversions = [], next_doc_id = 0,
      sessions = (\<lambda>k. None)((3, 3) \<mapsto> ex_file_info, (3, - 30) \<mapsto> ex_file_info),
      channel = [], next_message_id = 1\<rparr>"
  by (simp add: ex_two_sessions_def ex_one_credit_def ex_ctx3_def ex_ctx3g_def videoHandler_def
      mediaUpload_def isFileSizeValid_def session_key_def getAvailableFormats_def
      user_service_defs ex_defs ex_file_info_def Let_def)

lemma ex_spent_eq:
  "ex_spent =
     \<lparr>users = [(3, (ex_user 3 0)\<lparr>usage_count := 1, last_activity := 2000\<rparr>)],
      conversions =
        [(0, ex_stage_doc), (1, ex_usage_doc\<lparr>c_user_id := Some 3\<rparr>)],
      next_doc_id = 2,
      sessions = (\<lambda>k. None)((3, - 30) \<mapsto> ex_file_info),
      channel = [1], next_message_id = 2\<rparr>"
  by (simp add: ex_spent_def ex_two_sessions_eq convertHandler_def session_key_def ex_ctx3_def
      user_service_defs media_service_defs ex_defs ex_stage_doc_def ex_usage_doc_def
      ex_file_info_def Let_def fun_eq_iff)

text \<open>User 3 selects a format after the credit is spent, and user 1 selects one with credits left.\<close>

theorem stage_record_stands_when_debit_fails_witness:
  "sessions ex_spent (session_key ex_ctx3g) = Some ex_file_info \<and>
   download_ok ex_env \<and> ffmpeg_ok ex_env \<and> upload_ok ex_env \<and>
   credits (snd (getOrCreateUser 3000 (from_id ex_ctx3g) no_user_data ex_spent)) <
     CREDIT_PER_CONVERSION ex_config \<and>
   snd (convertHandler ex_config ex_env 3000 ex_ctx3g ''480p'' ex_spent) =
     ([Processing, ConversionFailed], [InsufficientCredits]) \<and>
   conversions (fst (convertHandler ex_config ex_env 3000 ex_ctx3g ''480p'' ex_spent)) =
     conversions ex_spent @ [(2, stage_doc_of ex_config ex_env 3000 ex_spent)] \<and>
   expires_at (stage_doc_of ex_config ex_env 3000 ex_spent) = Some 7203000 \<and>
   channel (fst (convertHandler ex_config ex_env 3000 ex_ctx3g ''480p'' ex_spent)) = [1, 2] \<and>
   map_option credits
     (map_of (users (fst (convertHandler ex_config ex_env 3000 ex_ctx3g ''480p'' ex_spent))) 3) =
     Some 0 \<and>
   CREDIT_PER_CONVERSION ex_config \<le>
     credits (snd (getOrCreateUser 2000 (from_id ex_ctx1) no_user_data ex_uploaded)) \<and>
   snd (snd (convertHandler ex_config ex_env 2000 ex_ctx1 ''720p'' ex_uploaded)) = [] \<and>
   conversions ex_converted = [(0, ex_stage_doc), (1, ex_usage_doc)] \<and>
   map_option credits (map_of (users ex_converted) 1) = Some 9"
proof -
  have s1: "sessions ex_uploaded (session_key ex_ctx1) = Some ex_file_info"
    by (simp add: ex_uploaded_eq session_key_def ex_ctx1_def ex_file_info_def)
  have fm1: "fileType ex_file_info = Audio \<longrightarrow> ''720p'' \<in> set [''mp3'', ''wav'', ''ogg'']"
    by (simp add: ex_file_info_def)
  have u1: "snd (getOrCreateUser 2000 (from_id ex_ctx1) no_user_data ex_uploaded) =
              (ex_user 1 10)\<lparr>last_activity := 1000\<rparr>"
    by (simp add: getOrCreateUser_def ex_uploaded_eq ex_ctx1_def)
  have enough: "CREDIT_PER_CONVERSION ex_config \<le>
     credits (snd (getOrCreateUser 2000 (from_id ex_ctx1) no_user_data ex_uploaded))"
    by (simp add: u1 ex_user_def ex_config_def)
  have docs: "stage_doc_of ex_config ex_env 2000 ex_uploaded = ex_stage_doc"
    "usage_doc_of ex_env 2000 (from_id ex_ctx1) ex_file_info ''720p'' = ex_usage_doc"
    by (simp_all add: stage_doc_of_def usage_doc_of_def ex_stage_doc_def ex_usage_doc_def
        ex_config_def ex_env_def ex_uploaded_eq ex_ctx1_def ex_file_info_def)
  have s: "sessions ex_spent (session_key ex_ctx3g) = Some ex_file_info"
    by (simp add: ex_spent_eq session_key_def ex_ctx3g_def)
  have ok: "download_ok ex_env" "ffmpeg_ok ex_env" "upload_ok ex_env"
    by (simp_all add: ex_env_def)
  have fm: "fileType ex_file_info = Audio \<longrightarrow> ''480p'' \<in> set [''mp3'', ''wav'', ''ogg'']"
    by (simp add: ex_file_info_def)
  have u: "snd (getOrCreateUser 3000 (from_id ex_ctx3g) no_user_data ex_spent) =
             (ex_user 3 0)\<lparr>usage_count := 1, last_activity := 2000\<rparr>"
    by (simp add: getOrCreateUser_def ex_spent_eq ex_ctx3g_def)
  have low: "credits (snd (getOrCreateUser 3000 (from_id ex_ctx3g) no_user_data ex_spent)) <
     CREDIT_PER_CONVERSION ex_config"
    by (simp add: u ex_user_def ex_config_def)
  have ex: "expires_at (stage_doc_of ex_config ex_env 3000 ex_spent) = Some 7203000"
    by (simp add: stage_doc_of_def ex_config_def)
  from stage_record_stands_when_debit_fails
         [OF s ok fm, where cfg = ex_config and now = 3000] low
  have "snd (convertHandler ex_config ex_env 3000 ex_ctx3g ''480p'' ex_spent) =
          ([Processing, ConversionFailed], [InsufficientCredits])"
    and "conversions (fst (convertHandler ex_config ex_env 3000 ex_ctx3g ''480p'' ex_spent)) =
          conversions ex_spent @ [(next_doc_id ex_spent, stage_doc_of ex_config ex_env 3000 ex_spent)]"
    and "channel (fst (convertHandler ex_config ex_env 3000 ex_ctx3g ''480p'' ex_spent)) =
          channel ex_spent @ [next_message_id ex_spent]"
    and "map_option credits
          (map_of (users (fst (convertHandler ex_config ex_env 3000 ex_ctx3g ''480p'' ex_spent)))
             (from_id ex_ctx3g)) =
          Some (credits (snd (getOrCreateUser 3000 (from_id ex_ctx3g) no_user_data ex_spent)))"
    by (simp_all add: split_beta prod_eq_iff)
  with s ok low ex have poor:
    "sessions ex_spent (session_key ex_ctx3g) = Some ex_file_info \<and>
     download_ok ex_env \<and> ffmpeg_ok ex_env \<and> upload_ok ex_env \<and>
     credits (snd (getOrCreateUser 3000 (from_id ex_ctx3g) no_user_data ex_spent)) <
       CREDIT_PER_CONVERSION ex_config \<and>
     snd (convertHandler ex_config ex_env 3000 ex_ctx3g ''480p'' ex_spent) =
       ([Processing, ConversionFailed], [InsufficientCredits]) \<and>
     conversions (fst (convertHandler ex_config ex_env 3000 ex_ctx3g ''480p'' ex_spent)) =
       conversions ex_spent @ [(2, stage_doc_of ex_config ex_env 3000 ex_spent)] \<and>
     expires_at (stage_doc_of ex_config ex_env 3000 ex_spent) = Some 7203000 \<and>
     channel (fst (convertHandler ex_config ex_env 3000 ex_ctx3g ''480p'' ex_spent)) = [1, 2] \<and>
     map_option credits
       (map_of (users (fst (convertHandler ex_config ex_env 3000 ex_ctx3g ''480p'' ex_spent))) 3) =
       Some 0"
    by (simp add: u ex_user_def) (simp add: ex_spent_eq ex_ctx3g_def)
  have n0: "next_doc_id ex_uploaded = 0" "conversions ex_uploaded = []" "from_id ex_ctx1 = 1"
    by (simp_all add: ex_uploaded_eq ex_ctx1_def)
  from stage_record_stands_when_debit_fails
         [OF s1 ok fm1, where cfg = ex_config and now = 2000] enough
  have r0: "snd (snd (convertHandler ex_config ex_env 2000 ex_ctx1 ''720p'' ex_uploaded)) = [] \<and>
    conversions (fst (convertHandler ex_config ex_env 2000 ex_ctx1 ''720p'' ex_uploaded)) =
      conversions ex_uploaded @
        [(next_doc_id ex_uploaded, stage_doc_of ex_config ex_env 2000 ex_uploaded),
         (Suc (next_doc_id ex_uploaded),
          usage_doc_of ex_env 2000 (from_id ex_ctx1) ex_file_info ''720p'')] \<and>
    map_option credits
      (map_of (users (fst (convertHandler ex_config ex_env 2000 ex_ctx1 ''720p'' ex_uploaded)))
         (from_id ex_ctx1)) =
      Some (credits (snd (getOrCreateUser 2000 (from_id ex_ctx1) no_user_data ex_uploaded)) -
            CREDIT_PER_CONVERSION ex_config)"
    by (simp add: split_beta)
  then have rich: "snd (snd (convertHandler ex_config ex_env 2000 ex_ctx1 ''720p'' ex_uploaded)) = []"
    "conversions ex_converted = [(0, ex_stage_doc), (1, ex_usage_doc)]"
    "map_option credits (map_of (users ex_converted) 1) = Some 9"
    unfolding ex_converted_def [symmetric] docs u1
    unfolding n0
    by (simp_all add: ex_user_def ex_config_def)
  from poor enough rich show ?thesis
    by blast
qed

section \<open>The two documents of a conversion\<close>

lemma convertHandler_success_needs:
  assumes "sessions st (session_key c) = Some fi"
    and "snd (snd (convertHandler cfg e now c fmt st)) = []"
  shows "download_ok e \<and> ffmpeg_ok e \<and> upload_ok e \<and>
         (fileType fi = Audio \<longrightarrow> fmt \<in> set [''mp3'', ''wav'', ''ogg'']) \<and>
         CREDIT_PER_CONVERSION cfg \<le> credits (snd (getOrCreateUser now (from_id c) no_user_data st))"
proof -
  have l0: "map_of (users (fst (getOrCreateUser now (from_id c) no_user_data st))) (from_id c) =
              Some ((snd (getOrCreateUser now (from_id c) no_user_data st))\<lparr>last_activity := now\<rparr>)"
    by (simp add: getOrCreateUser_lookup)
  have d: "download_ok e"
    using assms
    by (auto simp: convertHandler_def Let_def split_beta getOrCreateUser_other downloadFile_def
        split: if_splits)
  have f: "ffmpeg_ok e \<and> (fileType fi = Audio \<longrightarrow> fmt \<in> set [''mp3'', ''wav'', ''ogg''])"
    using assms d
    by (auto simp: convertHandler_def Let_def split_beta getOrCreateUser_other downloadFile_def
        convertVideo_def convertAudio_def split: if_splits file_type.splits)
  note cv = convert_ok_result [of e fi fmt]
  have u: "upload_ok e"
    using assms d f cv
    by (auto simp: convertHandler_def Let_def split_beta getOrCreateUser_other downloadFile_def
        uploadToStorageChannel_def simp del: set_simps split: if_splits)
  from upload_ok_result [OF u, of cfg now "converted_path e fi fmt"
      "fst (getOrCreateUser now (from_id c) no_user_data st)"]
  obtain st1 m where
    up: "uploadToStorageChannel cfg e now (converted_path e fi fmt)
           (fst (getOrCreateUser now (from_id c) no_user_data st)) = (st1, Inr m)" and
    u1: "users st1 = users (fst (getOrCreateUser now (from_id c) no_user_data st))"
    by blast
  have "CREDIT_PER_CONVERSION cfg \<le> credits (snd (getOrCreateUser now (from_id c) no_user_data st))"
  proof (rule ccontr)
    assume "\<not> ?thesis"
    then have "updateCredits now (from_id c) (- CREDIT_PER_CONVERSION cfg) st1 =
                 (st1, Inl InsufficientCredits)"
      by (simp add: updateCredits_def u1 l0 Let_def)
    with assms d f cv up show False
      by (simp add: convertHandler_def Let_def split_beta getOrCreateUser_other downloadFile_def
          del: set_simps)
  qed
  with d f u show ?thesis
    by blast
qed


lemma cleanup_keeps_unexpiring:
  assumes "distinct (map fst (conversions st))"
    and "(i, d) \<in> set (conversions st)" and "expires_at d = None"
  shows "(i, d) \<in> set (conversions (fst (cleanupOldFiles del_ok t st)))"
  using assms by (simp add: cleanup_keeps_others expired_def)

lemma cleanup_deletes_only_expired:
  assumes "distinct (map fst (conversions st))"
    and "(i, d) \<in> set (conversions st)"
    and "(i, d) \<notin> set (conversions (fst (cleanupOldFiles del_ok t st)))"
  shows "expired t d"
  using assms by (auto simp: cleanup_keeps_others)

text \<open>
  C10. A successful format selection (no error is logged) appends exactly two documents
  to \<open>conversions\<close>: first the stage document, which carries \<open>expires_at\<close>, the
  message identifier and the file identifier of the staged upload and no \<open>user_id\<close>,
  then the usage document, which carries \<open>user_id\<close>, \<open>format\<close> and \<open>created_at\<close>
  and no \<open>expires_at\<close>. Hence the sweep's query gains the stage document alone, and
  only once it has expired; no sweep ever removes the usage document, and a document that
  a sweep removes is one that carries \<open>expires_at\<close>; the daily count of the user
  gains the usage document alone (when it falls in the day counted); and
  \<open>totalConversions\<close> of \<open>getStats\<close> grows by 2.
\<close>

theorem conversion_writes_stage_and_usage_documents:
  assumes ses: "sessions st (session_key c) = Some fi"
    and success: "snd (snd (convertHandler cfg e now c fmt st)) = []"
    and fresh: "ids_fresh st"
  shows "conversions (fst (convertHandler cfg e now c fmt st)) =
       conversions st @
         [(next_doc_id st, stage_doc_of cfg e now st),
          (Suc (next_doc_id st), usage_doc_of e now (from_id c) fi fmt)] \<and>
     expires_at (stage_doc_of cfg e now st) =
       Some (now + FILE_DELETE_AFTER_HOURS cfg * 60 * 60 * 1000) \<and>
     message_id (stage_doc_of cfg e now st) = Some (next_message_id st) \<and>
     file_id (stage_doc_of cfg e now st) = Some (upload_file_id e) \<and>
     c_user_id (stage_doc_of cfg e now st) = None \<and>
     c_user_id (usage_doc_of e now (from_id c) fi fmt) = Some (from_id c) \<and>
     format (usage_doc_of e now (from_id c) fi fmt) = Some fmt \<and>
     c_created_at (usage_doc_of e now (from_id c) fi fmt) = now \<and>
     expires_at (usage_doc_of e now (from_id c) fi fmt) = None \<and>
     (\<forall>t. expiredFiles t (fst (convertHandler cfg e now c fmt st)) =
        expiredFiles t st @
          (if now + FILE_DELETE_AFTER_HOURS cfg * 60 * 60 * 1000 \<le> t
           then [(next_doc_id st, stage_doc_of cfg e now st)] else [])) \<and>
     (\<forall>del_ok t.
        (Suc (next_doc_id st), usage_doc_of e now (from_id c) fi fmt) \<in>
          set (conversions (fst (cleanupOldFiles del_ok t (fst (convertHandler cfg e now c fmt st)))))) \<and>
     (\<forall>del_ok t i d.
        (i, d) \<in> set (conversions (fst (convertHandler cfg e now c fmt st))) \<and>
        (i, d) \<notin> set (conversions (fst (cleanupOldFiles del_ok t (fst (convertHandler cfg e now c fmt st)))))
        \<longrightarrow> expired t d \<and> expires_at d \<noteq> None) \<and>
     (\<forall>t uid.
        todayConversions cfg t uid (fst (convertHandler cfg e now c fmt st)) =
          todayConversions cfg t uid st @
            (if uid = from_id c \<and> startOfDay cfg t \<le> now
             then [(Suc (next_doc_id st), usage_doc_of e now (from_id c) fi fmt)] else [])) \<and>
     (\<forall>t. totalConversions (getStats t (fst (convertHandler cfg e now c fmt st))) =
        totalConversions (getStats t st) + 2)"
proof -
  let ?st' = "fst (convertHandler cfg e now c fmt st)"
  let ?stage = "stage_doc_of cfg e now st"
  let ?usage = "usage_doc_of e now (from_id c) fi fmt"
  from convertHandler_success_needs [OF ses success]
  have pre: "download_ok e" "ffmpeg_ok e" "upload_ok e"
    "fileType fi = Audio \<longrightarrow> fmt \<in> set [''mp3'', ''wav'', ''ogg'']"
    "CREDIT_PER_CONVERSION cfg \<le> credits (snd (getOrCreateUser now (from_id c) no_user_data st))"
    by blast+
  from convertHandler_settles [OF ses pre] obtain st1 r where
    "convertHandler cfg e now c fmt st = (st1, [Processing, r], [])" and
    "conversions st1 = conversions st @ [(next_doc_id st, ?stage), (Suc (next_doc_id st), ?usage)]"
    by blast
  then have cs: "conversions ?st' =
      conversions st @ [(next_doc_id st, ?stage), (Suc (next_doc_id st), ?usage)]"
    by simp
  have fields: "expires_at ?stage = Some (now + FILE_DELETE_AFTER_HOURS cfg * 60 * 60 * 1000)"
    "message_id ?stage = Some (next_message_id st)" "file_id ?stage = Some (upload_file_id e)"
    "c_user_id ?stage = None" "c_user_id ?usage = Some (from_id c)" "format ?usage = Some fmt"
    "c_created_at ?usage = now" "expires_at ?usage = None"
    by (simp_all add: stage_doc_of_def usage_doc_of_def)
  have ex: "\<forall>t. expiredFiles t ?st' =
        expiredFiles t st @
          (if now + FILE_DELETE_AFTER_HOURS cfg * 60 * 60 * 1000 \<le> t
           then [(next_doc_id st, ?stage)] else [])"
    by (simp add: expiredFiles_def cs expired_def fields)
  have dist: "distinct (map fst (conversions ?st'))"
    using fresh by (auto simp: ids_fresh_def cs list_all_iff)
  have kept: "\<forall>del_ok t. (Suc (next_doc_id st), ?usage) \<in>
      set (conversions (fst (cleanupOldFiles del_ok t ?st')))"
  proof (intro allI)
    fix del_ok t
    have "(Suc (next_doc_id st), ?usage) \<in> set (conversions ?st')"
      by (simp add: cs)
    from cleanup_keeps_unexpiring [OF dist this fields(8)]
    show "(Suc (next_doc_id st), ?usage) \<in> set (conversions (fst (cleanupOldFiles del_ok t ?st')))" .
  qed
  have only: "\<forall>del_ok t i d.
        (i, d) \<in> set (conversions ?st') \<and>
        (i, d) \<notin> set (conversions (fst (cleanupOldFiles del_ok t ?st')))
        \<longrightarrow> expired t d \<and> expires_at d \<noteq> None"
    using cleanup_deletes_only_expired [OF dist]
    by (fastforce simp: expired_def split: option.splits)
  have today: "\<forall>t uid. todayConversions cfg t uid ?st' =
          todayConversions cfg t uid st @
            (if uid = from_id c \<and> startOfDay cfg t \<le> now
             then [(Suc (next_doc_id st), ?usage)] else [])"
    by (simp add: todayConversions_def cs fields)
  have total: "\<forall>t. totalConversions (getStats t ?st') = totalConversions (getStats t st) + 2"
    by (simp add: getStats_def cs)
  from cs fields ex kept only today total show ?thesis
    by blast
qed

lemma ex_success:
  "snd (snd (convertHandler ex_config ex_env 2000 ex_ctx1 ''720p'' ex_uploaded)) = []"
  by (simp add: convertHandler_def session_key_def user_service_defs media_service_defs ex_defs
      ex_uploaded_eq Let_def)

text \<open>The example conversion of user 1 and the sweep after it.\<close>

theorem conversion_writes_stage_and_usage_documents_witness:
  "sessions ex_uploaded (session_key ex_ctx1) = Some ex_file_info \<and>
   snd (snd (convertHandler ex_config ex_env 2000 ex_ctx1 ''720p'' ex_uploaded)) = [] \<and>
   ids_fresh ex_uploaded \<and>
   conversions ex_converted = [(0, ex_stage_doc), (1, ex_usage_doc)] \<and>
   expiredFiles 7202000 ex_converted = [(0, ex_stage_doc)] \<and>
   (1, ex_usage_doc) \<in> set (conversions (fst (cleanupOldFiles (\<lambda>m. True) 7202000 ex_converted))) \<and>
   (0, ex_stage_doc) \<in> set (conversions ex_converted) \<and>
   (0, ex_stage_doc) \<notin> set (conversions (fst (cleanupOldFiles (\<lambda>m. True) 7202000 ex_converted))) \<and>
   expired 7202000 ex_stage_doc \<and>
   todayConversions ex_config 5000 1 ex_converted = [(1, ex_usage_doc)] \<and>
   totalConversions (getStats 5000 ex_converted) = 2"
proof -
  have fresh: "ids_fresh ex_uploaded"
    by (simp add: ids_fresh_def ex_uploaded_eq)
  have st: "stage_doc_of ex_config ex_env 2000 ex_uploaded = ex_stage_doc"
    by (simp add: stage_doc_of_def ex_stage_doc_def ex_config_def ex_env_def ex_uploaded_eq)
  have us: "usage_doc_of ex_env 2000 (from_id ex_ctx1) ex_file_info ''720p'' = ex_usage_doc"
    by (simp add: usage_doc_of_def ex_usage_doc_def ex_env_def ex_ctx1_def ex_file_info_def)
  have n: "next_doc_id ex_uploaded = 0" "conversions ex_uploaded = []"
    by (simp_all add: ex_uploaded_eq)
  note main = conversion_writes_stage_and_usage_documents
    [OF ex_session ex_success fresh, folded ex_converted_def, unfolded st us n]
  from main have a: "conversions ex_converted = [(0, ex_stage_doc), (1, ex_usage_doc)]"
    by simp
  from main have "expiredFiles 7202000 ex_converted =
      expiredFiles 7202000 ex_uploaded @
        (if 2000 + FILE_DELETE_AFTER_HOURS ex_config * 60 * 60 * 1000 \<le> 7202000
         then [(0, ex_stage_doc)] else [])"
    by blast
  then have b: "expiredFiles 7202000 ex_converted = [(0, ex_stage_doc)]"
    by (simp add: expiredFiles_def n ex_config_def)
  from main have c: "(1, ex_usage_doc) \<in>
      set (conversions (fst (cleanupOldFiles (\<lambda>m. True) 7202000 ex_converted)))"
    by simp
  from main have "todayConversions ex_config 5000 1 ex_converted =
      todayConversions ex_config 5000 1 ex_uploaded @
        (if 1 = from_id ex_ctx1 \<and> startOfDay ex_config 5000 \<le> 2000
         then [(1, ex_usage_doc)] else [])"
    by simp
  then have d: "todayConversions ex_config 5000 1 ex_converted = [(1, ex_usage_doc)]"
    by (simp add: todayConversions_def n ex_ctx1_def startOfDay_def ex_config_def)
  from main have "totalConversions (getStats 5000 ex_converted) =
      totalConversions (getStats 5000 ex_uploaded) + 2"
    by blast
  then have e: "totalConversions (getStats 5000 ex_converted) = 2"
    by (simp add: getStats_def n)
  have f: "(0, ex_stage_doc) \<in> set (conversions ex_converted)"
    by (simp add: a)
  have g: "(0, ex_stage_doc) \<notin>
      set (conversions (fst (cleanupOldFiles (\<lambda>m. True) 7202000 ex_converted)))"
    by (simp add: cleanup_conversions b a ex_stage_doc_def ex_usage_doc_def)
  from main f g have h: "expired 7202000 ex_stage_doc"
    by blast
  from ex_session ex_success fresh a b c d e f g h show ?thesis
    by blast
qed

section \<open>Uploads without credits\<close>

lemma mediaUpload_rejects_low_balance:
  assumes "map_of (users st) (from_id c) = Some u"
    and "credits u < CREDIT_PER_CONVERSION cfg"
  shows "mediaUpload cfg now c kind m st =
           (users_set (from_id c) (u\<lparr>last_activity := now\<rparr>) st, [NotEnoughCredits])"
  using assms by (simp add: mediaUpload_def getOrCreateUser_def Let_def)

text \<open>
  C7, as the code has it. An upload (video or audio) by an existing account whose balance
  is below the cost of a conversion is answered with the reply that the credits do not
  suffice. The balance is what it was, and nothing is debited; no document is added, no
  session is opened, the channel is untouched. The one thing written is the account's
  \<open>last_activity\<close>, which \<open>getOrCreateUser\<close> refreshes before the balance is looked
  at.
\<close>

theorem upload_rejected_without_credits:
  assumes "map_of (users st) (from_id c) = Some u"
    and "credits u < CREDIT_PER_CONVERSION cfg"
  shows "\<forall>h \<in> set [videoHandler, audioHandler].
     snd (h cfg now c m st) = [NotEnoughCredits] \<and>
     map_of (users (fst (h cfg now c m st))) (from_id c) = Some (u\<lparr>last_activity := now\<rparr>) \<and>
     map_option credits (map_of (users (fst (h cfg now c m st))) (from_id c)) = Some (credits u) \<and>
     (\<forall>k. k \<noteq> from_id c \<longrightarrow> map_of (users (fst (h cfg now c m st))) k = map_of (users st) k) \<and>
     conversions (fst (h cfg now c m st)) = conversions st \<and>
     next_doc_id (fst (h cfg now c m st)) = next_doc_id st \<and>
     sessions (fst (h cfg now c m st)) = sessions st \<and>
     channel (fst (h cfg now c m st)) = channel st \<and>
     next_message_id (fst (h cfg now c m st)) = next_message_id st"
  by (simp add: videoHandler_def audioHandler_def mediaUpload_rejects_low_balance [OF assms]
      users_set_lookup users_set_other)

text \<open>
  C7, as the claim has it, fails twice. User 2 holds no credits and sends a video: the
  upload is rejected, and the state is not the one before, as \<open>last_activity\<close> went
  from 0 to 1000. And the format selection does not look at the balance at all: user 3
  has spent the only credit and selects a format in the chat whose session is still
  open; the file is staged and its document is written before the debit fails, and the
  reply is the general failure message.
\<close>

theorem conversion_attempt_without_credits_counterexample:
  "map_option credits (map_of (users ex_state) 2) = Some 0 \<and>
   0 < CREDIT_PER_CONVERSION ex_config \<and>
   snd (videoHandler ex_config 1000 ex_ctx2 ex_video ex_state) = [NotEnoughCredits] \<and>
   map_option last_activity (map_of (users ex_state) 2) = Some 0 \<and>
   map_option last_activity
     (map_of (users (fst (videoHandler ex_config 1000 ex_ctx2 ex_video ex_state))) 2) = Some 1000 \<and>
   fst (videoHandler ex_config 1000 ex_ctx2 ex_video ex_state) \<noteq> ex_state \<and>
   map_option credits (map_of (users ex_spent) 3) = Some 0 \<and>
   snd (convertHandler ex_config ex_env 3000 ex_ctx3g ''480p'' ex_spent) =
     ([Processing, ConversionFailed], [InsufficientCredits]) \<and>
   length (conversions (fst (convertHandler ex_config ex_env 3000 ex_ctx3g ''480p'' ex_spent))) =
     Suc (length (conversions ex_spent))"
proof -
  have r: "videoHandler ex_config 1000 ex_ctx2 ex_video ex_state =
      (users_set 2 ((ex_user 2 0)\<lparr>last_activity := 1000\<rparr>) ex_state, [NotEnoughCredits])"
    by (simp add: videoHandler_def mediaUpload_def getOrCreateUser_def ex_state_def ex_ctx2_def
        ex_config_def ex_user_def Let_def)
  have l: "map_option last_activity
     (map_of (users (fst (videoHandler ex_config 1000 ex_ctx2 ex_video ex_state))) 2) = Some 1000"
    by (simp add: r users_set_lookup)
  have l0: "map_option last_activity (map_of (users ex_state) 2) = Some 0"
    by (simp add: ex_state_def ex_user_def)
  from l l0 have ne: "fst (videoHandler ex_config 1000 ex_ctx2 ex_video ex_state) \<noteq> ex_state"
    by auto
  have up: "map_option credits (map_of (users ex_state) 2) = Some 0 \<and>
      0 < CREDIT_PER_CONVERSION ex_config \<and>
      snd (videoHandler ex_config 1000 ex_ctx2 ex_video ex_state) = [NotEnoughCredits]"
    by (simp add: r) (simp add: ex_state_def ex_user_def ex_config_def)
  have s: "sessions ex_spent (session_key ex_ctx3g) = Some ex_file_info"
    by (simp add: ex_spent_eq session_key_def ex_ctx3g_def)
  have ok: "download_ok ex_env" "ffmpeg_ok ex_env" "upload_ok ex_env"
    by (simp_all add: ex_env_def)
  have fm: "fileType ex_file_info = Audio \<longrightarrow> ''480p'' \<in> set [''mp3'', ''wav'', ''ogg'']"
    by (simp add: ex_file_info_def)
  have low: "credits (snd (getOrCreateUser 3000 (from_id ex_ctx3g) no_user_data ex_spent)) <
     CREDIT_PER_CONVERSION ex_config"
    by (simp add: getOrCreateUser_def ex_spent_eq ex_ctx3g_def ex_user_def ex_config_def)
  from convertHandler_debit_fails [OF s ok fm low] have sel:
    "snd (convertHandler ex_config ex_env 3000 ex_ctx3g ''480p'' ex_spent) =
       ([Processing, ConversionFailed], [InsufficientCredits]) \<and>
     length (conversions (fst (convertHandler ex_config ex_env 3000 ex_ctx3g ''480p'' ex_spent))) =
       Suc (length (conversions ex_spent))"
    by auto
  have c3: "map_option credits (map_of (users ex_spent) 3) = Some 0"
    by (simp add: ex_spent_eq ex_user_def)
  from up l0 l ne c3 sel show ?thesis
    by blast
qed

text \<open>User 2, who holds no credits, sends a video and an audio file.\<close>

theorem upload_rejected_without_credits_witness:
  "map_of (users ex_state) (from_id ex_ctx2) = Some (ex_user 2 0) \<and>
   credits (ex_user 2 0) < CREDIT_PER_CONVERSION ex_config \<and>
   snd (videoHandler ex_config 1000 ex_ctx2 ex_video ex_state) = [NotEnoughCredits] \<and>
   snd (audioHandler ex_config 1000 ex_ctx2 ex_video ex_state) = [NotEnoughCredits] \<and>
   map_option credits
     (map_of (users (fst (videoHandler ex_config 1000 ex_ctx2 ex_video ex_state))) 2) = Some 0 \<and>
   conversions (fst (videoHandler ex_config 1000 ex_ctx2 ex_video ex_state)) = [] \<and>
   sessions (fst (audioHandler ex_config 1000 ex_ctx2 ex_video ex_state)) = sessions ex_state"
proof -
  have u: "map_of (users ex_state) (from_id ex_ctx2) = Some (ex_user 2 0)"
    by (simp add: ex_state_def ex_ctx2_def)
  have low: "credits (ex_user 2 0) < CREDIT_PER_CONVERSION ex_config"
    by (simp add: ex_user_def ex_config_def)
  from upload_rejected_without_credits [OF u low, of 1000 ex_video] u low show ?thesis
    by (simp add: ex_ctx2_def ex_user_def) (simp add: ex_state_def)
qed

section \<open>The daily limit\<close>

lemma startOfDay_le: "startOfDay cfg t \<le> t"
  by (simp add: startOfDay_def)

lemma todayConversions_same_day:
  "startOfDay cfg t = startOfDay cfg t' \<Longrightarrow>
   todayConversions cfg t uid st = todayConversions cfg t' uid st"
  by (simp add: todayConversions_def)

lemma videoHandler_accepts:
  assumes u: "map_of (users st) (from_id c) = Some u"
    and cr: "CREDIT_PER_CONVERSION cfg \<le> credits u"
    and lim: "int (length (todayConversions cfg t (from_id c) st)) < DAILY_LIMIT cfg"
    and sz: "isFileSizeValid cfg (file_size m)"
  shows "\<exists>st1 fi. videoHandler cfg t c m st =
           (st1, [SelectFormat (map snd (getAvailableFormats Video))]) \<and>
         sessions st1 (session_key c) = Some fi \<and> fileType fi = Video \<and>
         map_of (users st1) (from_id c) = Some (u\<lparr>last_activity := t\<rparr>) \<and>
         conversions st1 = conversions st"
  using assms
  by (simp add: videoHandler_def mediaUpload_def getOrCreateUser_def checkDailyLimit_def
      users_set_lookup users_set_other todayConversions_def Let_def)

lemma videoHandler_limit_reached:
  assumes u: "map_of (users st) (from_id c) = Some u"
    and cr: "CREDIT_PER_CONVERSION cfg \<le> credits u"
    and lim: "DAILY_LIMIT cfg \<le> int (length (todayConversions cfg t (from_id c) st))"
  shows "videoHandler cfg t c m st =
           (users_set (from_id c) (u\<lparr>last_activity := t\<rparr>) st, [DailyLimitReached])"
  using assms
  by (simp add: videoHandler_def mediaUpload_def getOrCreateUser_def checkDailyLimit_def
      users_set_lookup users_set_other todayConversions_def Let_def)

lemma one_conversion:
  assumes u: "map_of (users st) (from_id c) = Some u"
    and cr: "CREDIT_PER_CONVERSION cfg \<le> credits u"
    and lim: "int (length (todayConversions cfg t1 (from_id c) st)) < DAILY_LIMIT cfg"
    and sz: "isFileSizeValid cfg (file_size m)"
    and ok: "download_ok e" "ffmpeg_ok e" "upload_ok e"
    and day: "startOfDay cfg t2 = startOfDay cfg t1"
  shows "\<exists>st2 u2 r.
           convertHandler cfg e t2 c fmt (fst (videoHandler cfg t1 c m st)) = (st2, [Processing, r], []) \<and>
           snd (videoHandler cfg t1 c m st) = [SelectFormat (map snd (getAvailableFormats Video))] \<and>
           map_of (users st2) (from_id c) = Some u2 \<and>
           credits u2 = credits u - CREDIT_PER_CONVERSION cfg \<and>
           length (todayConversions cfg t1 (from_id c) st2) =
             Suc (length (todayConversions cfg t1 (from_id c) st))"
proof -
  from videoHandler_accepts [OF u cr lim sz] obtain st1 fi where
    v: "videoHandler cfg t1 c m st = (st1, [SelectFormat (map snd (getAvailableFormats Video))])" and
    s1: "sessions st1 (session_key c) = Some fi" and
    ft: "fileType fi = Video" and
    u1: "map_of (users st1) (from_id c) = Some (u\<lparr>last_activity := t1\<rparr>)" and
    c1: "conversions st1 = conversions st"
    by blast
  have g: "snd (getOrCreateUser t2 (from_id c) no_user_data st1) = u\<lparr>last_activity := t1\<rparr>"
    by (simp add: getOrCreateUser_def u1)
  have fm: "fileType fi = Audio \<longrightarrow> fmt \<in> set [''mp3'', ''wav'', ''ogg'']"
    by (simp add: ft)
  have en: "CREDIT_PER_CONVERSION cfg \<le> credits (snd (getOrCreateUser t2 (from_id c) no_user_data st1))"
    by (simp add: g cr)
  from convertHandler_settles [OF s1 ok fm en] obtain st2 where
    r: "convertHandler cfg e t2 c fmt st1 =
          (st2, [Processing, delivered e fi fmt (credits u - CREDIT_PER_CONVERSION cfg)], [])" and
    u2: "map_of (users st2) (from_id c) =
           Some (u\<lparr>last_activity := t1, credits := credits u - CREDIT_PER_CONVERSION cfg,
                  usage_count := usage_count u + 1, last_activity := t2\<rparr>)" and
    c2: "conversions st2 =
           conversions st1 @
             [(next_doc_id st1, stage_doc_of cfg e t2 st1),
              (Suc (next_doc_id st1), usage_doc_of e t2 (from_id c) fi fmt)]"
    by (auto simp: g)
  have "length (todayConversions cfg t1 (from_id c) st2) =
          Suc (length (todayConversions cfg t1 (from_id c) st))"
    using startOfDay_le [of cfg t2]
    by (simp add: todayConversions_def c2 c1 stage_doc_of_def usage_doc_of_def day)
  with v r u2 show ?thesis
    by simp
qed


lemma conversions_in_a_day_succeed:
  assumes sz: "isFileSizeValid cfg (file_size m)"
    and ok: "download_ok e" "ffmpeg_ok e" "upload_ok e"
    and cost: "0 \<le> CREDIT_PER_CONVERSION cfg"
  shows "map_of (users st) (from_id c) = Some u \<Longrightarrow>
    (\<forall>(t1, t2) \<in> set ts. startOfDay cfg t1 = startOfDay cfg t \<and> startOfDay cfg t2 = startOfDay cfg t) \<Longrightarrow>
    int (length (todayConversions cfg t (from_id c) st)) + int (length ts) \<le> DAILY_LIMIT cfg \<Longrightarrow>
    int (length ts) * CREDIT_PER_CONVERSION cfg \<le> credits u \<Longrightarrow>
    \<exists>u'. snd (conversions_in_a_day cfg e c m fmt ts st) \<and>
      map_of (users (fst (conversions_in_a_day cfg e c m fmt ts st))) (from_id c) = Some u' \<and>
      credits u' = credits u - int (length ts) * CREDIT_PER_CONVERSION cfg \<and>
      length (todayConversions cfg t (from_id c) (fst (conversions_in_a_day cfg e c m fmt ts st))) =
        length (todayConversions cfg t (from_id c) st) + length ts"
proof (induction ts arbitrary: st u)
  case Nil
  then show ?case by simp
next
  case (Cons x ts)
  obtain t1 t2 where x: "x = (t1, t2)" by (cases x)
  from Cons.prems(2) have d1: "startOfDay cfg t1 = startOfDay cfg t"
    and d2: "startOfDay cfg t2 = startOfDay cfg t"
    and drest: "\<forall>(t1, t2) \<in> set ts. startOfDay cfg t1 = startOfDay cfg t \<and> startOfDay cfg t2 = startOfDay cfg t"
    by (auto simp: x)
  have same: "\<And>s. todayConversions cfg t1 (from_id c) s = todayConversions cfg t (from_id c) s"
    by (rule todayConversions_same_day) (rule d1)
  from cost have "0 \<le> int (length ts) * CREDIT_PER_CONVERSION cfg"
    by simp
  with Cons.prems(4) have cr: "CREDIT_PER_CONVERSION cfg \<le> credits u"
    by (simp add: algebra_simps)
  from Cons.prems(3) have lim: "int (length (todayConversions cfg t1 (from_id c) st)) < DAILY_LIMIT cfg"
    by (simp add: same)
  from one_conversion [OF Cons.prems(1) cr lim sz ok, of t2 fmt] d1 d2
  obtain st2 u2 r where
    sel: "convertHandler cfg e t2 c fmt (fst (videoHandler cfg t1 c m st)) = (st2, [Processing, r], [])" and
    up: "snd (videoHandler cfg t1 c m st) = [SelectFormat (map snd (getAvailableFormats Video))]" and
    u2: "map_of (users st2) (from_id c) = Some u2" and
    c2: "credits u2 = credits u - CREDIT_PER_CONVERSION cfg" and
    n2: "length (todayConversions cfg t (from_id c) st2) =
           Suc (length (todayConversions cfg t (from_id c) st))"
    by (auto simp: same)
  from Cons.prems(3) n2 have lim2:
    "int (length (todayConversions cfg t (from_id c) st2)) + int (length ts) \<le> DAILY_LIMIT cfg"
    by simp
  from Cons.prems(4) c2 have cr2: "int (length ts) * CREDIT_PER_CONVERSION cfg \<le> credits u2"
    by (simp add: algebra_simps)
  from Cons.IH [OF u2 drest lim2 cr2] obtain u' where
    r1: "snd (conversions_in_a_day cfg e c m fmt ts st2)" and
    r2: "map_of (users (fst (conversions_in_a_day cfg e c m fmt ts st2))) (from_id c) = Some u'" and
    r3: "credits u' = credits u2 - int (length ts) * CREDIT_PER_CONVERSION cfg" and
    r4: "length (todayConversions cfg t (from_id c) (fst (conversions_in_a_day cfg e c m fmt ts st2))) =
        length (todayConversions cfg t (from_id c) st2) + length ts"
    by blast
  from sel up r1 r2 r3 r4 c2 n2 show ?case
    by (simp add: x Let_def algebra_simps)
qed


lemma mediaUpload_closed:
  assumes "DAILY_LIMIT cfg \<le> 0"
  shows "snd (mediaUpload cfg now c kind m st) \<in> set [[NotEnoughCredits], [DailyLimitReached]] \<and>
         sessions (fst (mediaUpload cfg now c kind m st)) = sessions st"
proof -
  have "map_of (users (fst (getOrCreateUser now (from_id c) no_user_data st))) (from_id c) \<noteq> None"
    by (simp add: getOrCreateUser_lookup)
  then have "checkDailyLimit cfg now (from_id c) (fst (getOrCreateUser now (from_id c) no_user_data st))"
    using assms by (auto simp: checkDailyLimit_def)
  then show ?thesis
    by (simp add: mediaUpload_def split_beta Let_def getOrCreateUser_other)
qed

lemma daily_limit_rounds:
  "(map_of (users st) uid \<noteq> None \<longrightarrow>
      checkDailyLimit cfg now uid st =
        (DAILY_LIMIT cfg \<le> int (length (todayConversions cfg now uid st)))) \<and>
   (map_of (users st) (from_id c) = Some u \<and> 0 \<le> CREDIT_PER_CONVERSION cfg \<and>
    (int (length ts) + 1) * CREDIT_PER_CONVERSION cfg \<le> credits u \<and>
    isFileSizeValid cfg (file_size m) \<and> download_ok e \<and> ffmpeg_ok e \<and> upload_ok e \<and>
    (\<forall>(t1, t2) \<in> set ts. startOfDay cfg t1 = startOfDay cfg t \<and> startOfDay cfg t2 = startOfDay cfg t) \<and>
    todayConversions cfg t (from_id c) st = [] \<and>
    int (length ts) = DAILY_LIMIT cfg \<longrightarrow>
      snd (conversions_in_a_day cfg e c m fmt ts st) \<and>
      snd (videoHandler cfg t c m (fst (conversions_in_a_day cfg e c m fmt ts st))) =
        [DailyLimitReached] \<and>
      sessions (fst (videoHandler cfg t c m (fst (conversions_in_a_day cfg e c m fmt ts st)))) =
        sessions (fst (conversions_in_a_day cfg e c m fmt ts st))) \<and>
   (DAILY_LIMIT cfg \<le> 0 \<longrightarrow>
      snd (mediaUpload cfg now c kind m st) \<in> set [[NotEnoughCredits], [DailyLimitReached]] \<and>
      sessions (fst (mediaUpload cfg now c kind m st)) = sessions st)"
proof (intro conjI impI)
  assume "map_of (users st) uid \<noteq> None"
  then show "checkDailyLimit cfg now uid st =
      (DAILY_LIMIT cfg \<le> int (length (todayConversions cfg now uid st)))"
    by (auto simp: checkDailyLimit_def)
next
  assume "DAILY_LIMIT cfg \<le> 0"
  then show "snd (mediaUpload cfg now c kind m st) \<in> set [[NotEnoughCredits], [DailyLimitReached]]"
    and "sessions (fst (mediaUpload cfg now c kind m st)) = sessions st"
    using mediaUpload_closed by blast+
next
  assume a: "map_of (users st) (from_id c) = Some u \<and> 0 \<le> CREDIT_PER_CONVERSION cfg \<and>
    (int (length ts) + 1) * CREDIT_PER_CONVERSION cfg \<le> credits u \<and>
    isFileSizeValid cfg (file_size m) \<and> download_ok e \<and> ffmpeg_ok e \<and> upload_ok e \<and>
    (\<forall>(t1, t2) \<in> set ts. startOfDay cfg t1 = startOfDay cfg t \<and> startOfDay cfg t2 = startOfDay cfg t) \<and>
    todayConversions cfg t (from_id c) st = [] \<and>
    int (length ts) = DAILY_LIMIT cfg"
  let ?st' = "fst (conversions_in_a_day cfg e c m fmt ts st)"
  from a have u: "map_of (users st) (from_id c) = Some u"
    and cost: "0 \<le> CREDIT_PER_CONVERSION cfg"
    and cr: "(int (length ts) + 1) * CREDIT_PER_CONVERSION cfg \<le> credits u"
    and sz: "isFileSizeValid cfg (file_size m)"
    and ok: "download_ok e" "ffmpeg_ok e" "upload_ok e"
    and day: "\<forall>(t1, t2) \<in> set ts. startOfDay cfg t1 = startOfDay cfg t \<and> startOfDay cfg t2 = startOfDay cfg t"
    and none: "todayConversions cfg t (from_id c) st = []"
    and lim: "int (length ts) = DAILY_LIMIT cfg"
    by blast+
  from lim none have lim': "int (length (todayConversions cfg t (from_id c) st)) + int (length ts) \<le> DAILY_LIMIT cfg"
    by simp
  from cr cost have cr': "int (length ts) * CREDIT_PER_CONVERSION cfg \<le> credits u"
    by (simp add: algebra_simps)
  from conversions_in_a_day_succeed [OF sz ok cost u day lim' cr', of fmt] obtain u' where
    all: "snd (conversions_in_a_day cfg e c m fmt ts st)" and
    u': "map_of (users ?st') (from_id c) = Some u'" and
    c': "credits u' = credits u - int (length ts) * CREDIT_PER_CONVERSION cfg" and
    n': "length (todayConversions cfg t (from_id c) ?st') =
           length (todayConversions cfg t (from_id c) st) + length ts"
    by blast
  from c' cr have en: "CREDIT_PER_CONVERSION cfg \<le> credits u'"
    by (simp add: algebra_simps)
  from n' none lim have full: "DAILY_LIMIT cfg \<le> int (length (todayConversions cfg t (from_id c) ?st'))"
    by simp
  note rej = videoHandler_limit_reached [OF u' en full, of m]
  show "snd (conversions_in_a_day cfg e c m fmt ts st)"
    by (rule all)
  show "snd (videoHandler cfg t c m ?st') = [DailyLimitReached]"
    by (simp add: rej)
  show "sessions (fst (videoHandler cfg t c m ?st')) = sessions ?st'"
    by (simp add: rej users_set_other)
qed

lemma ex_day_times:
  "\<forall>(t1, t2) \<in> set ex_day. startOfDay ex_config t1 = startOfDay ex_config 7000 \<and>
                            startOfDay ex_config t2 = startOfDay ex_config 7000"
  by (simp add: ex_day_def startOfDay_def ex_config_def)

lemma mediaUpload_other_sessions:
  "k \<noteq> session_key c \<Longrightarrow> sessions (fst (mediaUpload cfg now c kind m st)) k = sessions st k"
  by (simp add: mediaUpload_def split_beta Let_def getOrCreateUser_other)

lemma convertHandler_other_sessions:
  "k \<noteq> session_key c \<Longrightarrow> sessions (fst (convertHandler cfg e now c fmt st)) k = sessions st k"
  using convertHandler_outcomes [of st c cfg e now fmt]
  by (auto simp: getOrCreateUser_other)

lemma conversions_in_a_day_other_sessions:
  "k \<noteq> session_key c \<Longrightarrow>
   sessions (fst (conversions_in_a_day cfg e c m fmt ts st)) k = sessions st k"
proof (induction ts arbitrary: st)
  case Nil
  then show ?case by simp
next
  case (Cons x ts)
  obtain t1 t2 where x: "x = (t1, t2)" by (cases x)
  from Cons show ?case
    by (simp add: x Let_def convertHandler_other_sessions videoHandler_def
        mediaUpload_other_sessions)
qed

lemma mediaUpload_limit_gate:
  assumes u: "map_of (users st) (from_id c) = Some u"
    and cr: "CREDIT_PER_CONVERSION cfg \<le> credits u"
  shows "(snd (mediaUpload cfg now c kind m st) = [DailyLimitReached]) =
           (DAILY_LIMIT cfg \<le> int (length (todayConversions cfg now (from_id c) st)))"
    and "DAILY_LIMIT cfg \<le> int (length (todayConversions cfg now (from_id c) st)) \<Longrightarrow>
           sessions (fst (mediaUpload cfg now c kind m st)) = sessions st \<and>
           conversions (fst (mediaUpload cfg now c kind m st)) = conversions st"
  using assms
  by (simp_all add: mediaUpload_def getOrCreateUser_def checkDailyLimit_def users_set_lookup
      users_set_other todayConversions_def Let_def)

lemma selection_not_gated:
  assumes ses: "sessions st (session_key c) = Some fi"
    and ok: "download_ok e" "ffmpeg_ok e" "upload_ok e"
    and fm: "fileType fi = Audio \<longrightarrow> fmt \<in> set [''mp3'', ''wav'', ''ogg'']"
    and enough: "CREDIT_PER_CONVERSION cfg \<le> credits (snd (getOrCreateUser now (from_id c) no_user_data st))"
  shows "snd (convertHandler cfg e now c fmt st) =
           ([Processing,
             delivered e fi fmt
               (credits (snd (getOrCreateUser now (from_id c) no_user_data st)) -
                CREDIT_PER_CONVERSION cfg)], []) \<and>
         length (todayConversions cfg now (from_id c) (fst (convertHandler cfg e now c fmt st))) =
           Suc (length (todayConversions cfg now (from_id c) st))"
proof -
  from convertHandler_settles [OF ses ok fm enough] obtain st' where
    r: "convertHandler cfg e now c fmt st =
          (st', [Processing,
                 delivered e fi fmt
                   (credits (snd (getOrCreateUser now (from_id c) no_user_data st)) -
                    CREDIT_PER_CONVERSION cfg)], [])" and
    c: "conversions st' =
           conversions st @
             [(next_doc_id st, stage_doc_of cfg e now st),
              (Suc (next_doc_id st), usage_doc_of e now (from_id c) fi fmt)]"
    by blast
  have "length (todayConversions cfg now (from_id c) st') =
          Suc (length (todayConversions cfg now (from_id c) st))"
    using startOfDay_le [of cfg now]
    by (simp add: todayConversions_def c stage_doc_of_def usage_doc_of_def)
  with r show ?thesis
    by simp
qed

lemma ex_group_session:
  "fst (videoHandler ex_config 500 ex_ctx1g ex_video ex_state) =
     \<lparr>users = [(1, (ex_user 1 10)\<lparr>last_activity := 500\<rparr>), (2, ex_user 2 0)],
      conversions = [], next_doc_id = 0,
      sessions = (\<lambda>k. None)((1, - 10) \<mapsto> ex_file_info),
      channel = [], next_message_id = 1\<rparr>"
  by (simp add: videoHandler_def mediaUpload_def isFileSizeValid_def session_key_def
      getAvailableFormats_def user_service_defs ex_defs ex_ctx1g_def ex_file_info_def Let_def)

lemma ex_three_done_facts:
  "\<exists>u'. map_of (users ex_three_done) 1 = Some u' \<and> credits u' = 7"
  "length (todayConversions ex_config 7000 1 ex_three_done) = 3"
  "sessions ex_three_done (session_key ex_ctx1g) = Some ex_file_info"
proof -
  let ?st0 = "fst (videoHandler ex_config 500 ex_ctx1g ex_video ex_state)"
  have sz: "isFileSizeValid ex_config (file_size ex_video)"
    by (simp add: isFileSizeValid_def ex_config_def ex_video_def)
  have ok: "download_ok ex_env" "ffmpeg_ok ex_env" "upload_ok ex_env"
    by (simp_all add: ex_env_def)
  have cost: "0 \<le> CREDIT_PER_CONVERSION ex_config"
    by (simp add: ex_config_def)
  have u: "map_of (users ?st0) (from_id ex_ctx1) = Some ((ex_user 1 10)\<lparr>last_activity := 500\<rparr>)"
    by (simp add: ex_group_session ex_ctx1_def)
  have none: "todayConversions ex_config 7000 (from_id ex_ctx1) ?st0 = []"
    by (simp add: todayConversions_def ex_group_session)
  have lim: "int (length (todayConversions ex_config 7000 (from_id ex_ctx1) ?st0)) +
               int (length ex_day) \<le> DAILY_LIMIT ex_config"
    by (simp add: none) (simp add: ex_day_def ex_config_def)
  have cr: "int (length ex_day) * CREDIT_PER_CONVERSION ex_config \<le>
              credits ((ex_user 1 10)\<lparr>last_activity := 500\<rparr>)"
    by (simp add: ex_day_def ex_config_def ex_user_def)
  from conversions_in_a_day_succeed [OF sz ok cost u ex_day_times lim cr, of "''720p''"]
  obtain u' where
    "map_of (users ex_three_done) (from_id ex_ctx1) = Some u'"
    "credits u' = credits ((ex_user 1 10)\<lparr>last_activity := 500\<rparr>) -
                  int (length ex_day) * CREDIT_PER_CONVERSION ex_config"
    "length (todayConversions ex_config 7000 (from_id ex_ctx1) ex_three_done) =
       length (todayConversions ex_config 7000 (from_id ex_ctx1) ?st0) + length ex_day"
    unfolding ex_three_done_def by blast
  then show "\<exists>u'. map_of (users ex_three_done) 1 = Some u' \<and> credits u' = 7"
    and "length (todayConversions ex_config 7000 1 ex_three_done) = 3"
    by (simp_all add: none) (simp_all add: ex_ctx1_def ex_day_def ex_config_def ex_user_def)
  have "session_key ex_ctx1g \<noteq> session_key ex_ctx1"
    by (simp add: session_key_def ex_ctx1g_def ex_ctx1_def)
  then have "sessions ex_three_done (session_key ex_ctx1g) = sessions ?st0 (session_key ex_ctx1g)"
    unfolding ex_three_done_def by (rule conversions_in_a_day_other_sessions)
  also have "\<dots> = Some ex_file_info"
    unfolding ex_group_session by (simp add: session_key_def ex_ctx1g_def)
  finally show "sessions ex_three_done (session_key ex_ctx1g) = Some ex_file_info" .
qed


text \<open>
  C6, as the code has it. For an existing account \<open>checkDailyLimit\<close> reports the limit
  reached exactly when the number of the account's documents created since local
  midnight is at least \<open>DAILY_LIMIT\<close>. The check is made when a file is uploaded: an
  upload by an account with credits is answered with the daily-limit rejection exactly
  when the check reports the limit reached, and then it opens no session and writes no
  document. In particular: an account has no conversion yet today and credits for one
  conversion more than the limit; it sends a video and selects a format as many times as
  the limit says (3 times for a limit of 3), each time within the day and with download,
  transcoding and upload succeeding. Then every one of these uploads is accepted and
  every selection is delivered, and the next upload of the day is answered with the
  daily-limit rejection and opens no session. With a limit of 0 every upload, by any user
  and of any kind, is rejected and opens no session. A format selection is not checked
  against the limit: on an open session, with credits, it is delivered and adds one to
  the count of the day, whatever the count and the limit are.
\<close>

theorem daily_limit_checked_at_upload:
  "((map_of (users st) uid \<noteq> None \<longrightarrow>
      checkDailyLimit cfg now uid st =
        (DAILY_LIMIT cfg \<le> int (length (todayConversions cfg now uid st)))) \<and>
    (map_of (users st) (from_id c) = Some u \<and> 0 \<le> CREDIT_PER_CONVERSION cfg \<and>
     (int (length ts) + 1) * CREDIT_PER_CONVERSION cfg \<le> credits u \<and>
     isFileSizeValid cfg (file_size m) \<and> download_ok e \<and> ffmpeg_ok e \<and> upload_ok e \<and>
     (\<forall>(t1, t2) \<in> set ts. startOfDay cfg t1 = startOfDay cfg t \<and> startOfDay cfg t2 = startOfDay cfg t) \<and>
     todayConversions cfg t (from_id c) st = [] \<and>
     int (length ts) = DAILY_LIMIT cfg \<longrightarrow>
       snd (conversions_in_a_day cfg e c m fmt ts st) \<and>
       snd (videoHandler cfg t c m (fst (conversions_in_a_day cfg e c m fmt ts st))) =
         [DailyLimitReached] \<and>
       sessions (fst (videoHandler cfg t c m (fst (conversions_in_a_day cfg e c m fmt ts st)))) =
         sessions (fst (conversions_in_a_day cfg e c m fmt ts st))) \<and>
    (DAILY_LIMIT cfg \<le> 0 \<longrightarrow>
       snd (mediaUpload cfg now c kind m st) \<in> set [[NotEnoughCredits], [DailyLimitReached]] \<and>
       sessions (fst (mediaUpload cfg now c kind m st)) = sessions st)) \<and>
   (map_of (users st) (from_id c) = Some u \<and> CREDIT_PER_CONVERSION cfg \<le> credits u \<longrightarrow>
      (snd (mediaUpload cfg now c kind m st) = [DailyLimitReached]) =
        (DAILY_LIMIT cfg \<le> int (length (todayConversions cfg now (from_id c) st))) \<and>
      (DAILY_LIMIT cfg \<le> int (length (todayConversions cfg now (from_id c) st)) \<longrightarrow>
         sessions (fst (mediaUpload cfg now c kind m st)) = sessions st \<and>
         conversions (fst (mediaUpload cfg now c kind m st)) = conversions st)) \<and>
   (sessions st (session_key c) = Some fi \<and> download_ok e \<and> ffmpeg_ok e \<and> upload_ok e \<and>
    (fileType fi = Audio \<longrightarrow> fmt \<in> set [''mp3'', ''wav'', ''ogg'']) \<and>
    CREDIT_PER_CONVERSION cfg \<le> credits (snd (getOrCreateUser now (from_id c) no_user_data st)) \<longrightarrow>
      snd (convertHandler cfg e now c fmt st) =
        ([Processing,
          delivered e fi fmt
            (credits (snd (getOrCreateUser now (from_id c) no_user_data st)) -
             CREDIT_PER_CONVERSION cfg)], []) \<and>
      length (todayConversions cfg now (from_id c) (fst (convertHandler cfg e now c fmt st))) =
        Suc (length (todayConversions cfg now (from_id c) st)))"
proof -
  have gate: "map_of (users st) (from_id c) = Some u \<and> CREDIT_PER_CONVERSION cfg \<le> credits u \<longrightarrow>
      (snd (mediaUpload cfg now c kind m st) = [DailyLimitReached]) =
        (DAILY_LIMIT cfg \<le> int (length (todayConversions cfg now (from_id c) st))) \<and>
      (DAILY_LIMIT cfg \<le> int (length (todayConversions cfg now (from_id c) st)) \<longrightarrow>
         sessions (fst (mediaUpload cfg now c kind m st)) = sessions st \<and>
         conversions (fst (mediaUpload cfg now c kind m st)) = conversions st)"
    using mediaUpload_limit_gate [of st c u cfg now kind m] by blast
  have sel: "sessions st (session_key c) = Some fi \<and> download_ok e \<and> ffmpeg_ok e \<and> upload_ok e \<and>
    (fileType fi = Audio \<longrightarrow> fmt \<in> set [''mp3'', ''wav'', ''ogg'']) \<and>
    CREDIT_PER_CONVERSION cfg \<le> credits (snd (getOrCreateUser now (from_id c) no_user_data st)) \<longrightarrow>
      snd (convertHandler cfg e now c fmt st) =
        ([Processing,
          delivered e fi fmt
            (credits (snd (getOrCreateUser now (from_id c) no_user_data st)) -
             CREDIT_PER_CONVERSION cfg)], []) \<and>
      length (todayConversions cfg now (from_id c) (fst (convertHandler cfg e now c fmt st))) =
        Suc (length (todayConversions cfg now (from_id c) st))"
    using selection_not_gated [of st c fi e fmt cfg now] by blast
  show ?thesis
    by (rule conjI [OF daily_limit_rounds conjI [OF gate sel]])
qed

text \<open>
  User 1 converts three times within a day under a limit of 3 and the next upload is
  rejected; under a limit of 0 an upload is rejected at once; and the selection in the
  group, on the session opened before the three conversions, is delivered as the fourth.
\<close>

theorem daily_limit_checked_at_upload_witness:
  "map_of (users ex_state) 1 \<noteq> None \<and>
   checkDailyLimit ex_config 7000 1 ex_state = False \<and>
   DAILY_LIMIT ex_config = 3 \<and> length ex_day = 3 \<and>
   snd (conversions_in_a_day ex_config ex_env ex_ctx1 ex_video ''720p'' ex_day ex_state) \<and>
   snd (videoHandler ex_config 7000 ex_ctx1 ex_video
          (fst (conversions_in_a_day ex_config ex_env ex_ctx1 ex_video ''720p'' ex_day ex_state))) =
     [DailyLimitReached] \<and>
   DAILY_LIMIT ex_config_closed \<le> 0 \<and>
   snd (mediaUpload ex_config_closed 1000 ex_ctx1 Video ex_video ex_state) = [DailyLimitReached] \<and>
   DAILY_LIMIT ex_config \<le> int (length (todayConversions ex_config 7000 (from_id ex_ctx1) ex_three_done)) \<and>
   snd (mediaUpload ex_config 7000 ex_ctx1 Audio ex_video ex_three_done) = [DailyLimitReached] \<and>
   sessions (fst (mediaUpload ex_config 7000 ex_ctx1 Audio ex_video ex_three_done)) =
     sessions ex_three_done \<and>
   sessions ex_three_done (session_key ex_ctx1g) = Some ex_file_info \<and>
   snd (snd (convertHandler ex_config ex_env 7000 ex_ctx1g ''480p'' ex_three_done)) = [] \<and>
   length (todayConversions ex_config 7000 (from_id ex_ctx1g)
             (fst (convertHandler ex_config ex_env 7000 ex_ctx1g ''480p'' ex_three_done))) = 4"
proof -
  note main = daily_limit_checked_at_upload
    [where st = ex_state and cfg = ex_config and c = ex_ctx1 and u = "ex_user 1 10" and ts = ex_day
       and m = ex_video and e = ex_env and t = 7000 and uid = 1 and now = 7000
       and fmt = "''720p''"]
  have u: "map_of (users ex_state) 1 \<noteq> None"
    by (simp add: ex_state_def)
  have t: "todayConversions ex_config 7000 1 ex_state = []"
    by (simp add: todayConversions_def ex_state_def)
  from main u t have a: "checkDailyLimit ex_config 7000 1 ex_state = False"
    by (simp add: ex_config_def)
  have pre: "map_of (users ex_state) (from_id ex_ctx1) = Some (ex_user 1 10) \<and>
    0 \<le> CREDIT_PER_CONVERSION ex_config \<and>
    (int (length ex_day) + 1) * CREDIT_PER_CONVERSION ex_config \<le> credits (ex_user 1 10) \<and>
    isFileSizeValid ex_config (file_size ex_video) \<and>
    download_ok ex_env \<and> ffmpeg_ok ex_env \<and> upload_ok ex_env \<and>
    todayConversions ex_config 7000 (from_id ex_ctx1) ex_state = [] \<and>
    int (length ex_day) = DAILY_LIMIT ex_config"
    by (simp add: ex_state_def ex_ctx1_def ex_config_def ex_day_def ex_user_def ex_video_def
        ex_env_def isFileSizeValid_def todayConversions_def)
  from main pre ex_day_times have b:
    "snd (conversions_in_a_day ex_config ex_env ex_ctx1 ex_video ''720p'' ex_day ex_state)"
    "snd (videoHandler ex_config 7000 ex_ctx1 ex_video
          (fst (conversions_in_a_day ex_config ex_env ex_ctx1 ex_video ''720p'' ex_day ex_state))) =
     [DailyLimitReached]"
    by blast+
  have z: "DAILY_LIMIT ex_config_closed \<le> 0"
    by (simp add: ex_config_closed_def)
  have cr: "snd (mediaUpload ex_config_closed 1000 ex_ctx1 Video ex_video ex_state) \<noteq> [NotEnoughCredits]"
    by (simp add: mediaUpload_def getOrCreateUser_def ex_state_def ex_ctx1_def ex_user_def
        ex_config_closed_def ex_config_def Let_def)
  from daily_limit_checked_at_upload
    [where cfg = ex_config_closed and now = 1000 and c = ex_ctx1 and kind = Video and m = ex_video
       and st = ex_state] z cr
  have d: "snd (mediaUpload ex_config_closed 1000 ex_ctx1 Video ex_video ex_state) = [DailyLimitReached]"
    by simp
  have l: "DAILY_LIMIT ex_config = 3" "length ex_day = 3"
    by (simp_all add: ex_config_def ex_day_def)
  from ex_three_done_facts(1) obtain u' where
    u': "map_of (users ex_three_done) 1 = Some u'" and c': "credits u' = 7"
    by blast
  have u1: "map_of (users ex_three_done) (from_id ex_ctx1) = Some u'"
    by (simp add: ex_ctx1_def u')
  have en: "CREDIT_PER_CONVERSION ex_config \<le> credits u'"
    by (simp add: c' ex_config_def)
  have full: "DAILY_LIMIT ex_config \<le>
      int (length (todayConversions ex_config 7000 (from_id ex_ctx1) ex_three_done))"
    by (simp add: ex_ctx1_def ex_three_done_facts(2) l)
  from daily_limit_checked_at_upload
    [where cfg = ex_config and now = 7000 and c = ex_ctx1 and kind = Audio and m = ex_video
       and st = ex_three_done and u = u'] u1 en full
  have f: "snd (mediaUpload ex_config 7000 ex_ctx1 Audio ex_video ex_three_done) = [DailyLimitReached]"
    "sessions (fst (mediaUpload ex_config 7000 ex_ctx1 Audio ex_video ex_three_done)) =
       sessions ex_three_done"
    by blast+
  have ok: "download_ok ex_env \<and> ffmpeg_ok ex_env \<and> upload_ok ex_env"
    by (simp add: ex_env_def)
  have fm: "fileType ex_file_info = Audio \<longrightarrow> ''480p'' \<in> set [''mp3'', ''wav'', ''ogg'']"
    by (simp add: ex_file_info_def)
  have g: "snd (getOrCreateUser 7000 (from_id ex_ctx1g) no_user_data ex_three_done) = u'"
    by (simp add: getOrCreateUser_def ex_ctx1g_def u')
  have en2: "CREDIT_PER_CONVERSION ex_config \<le>
      credits (snd (getOrCreateUser 7000 (from_id ex_ctx1g) no_user_data ex_three_done))"
    by (simp add: g en)
  have n3: "length (todayConversions ex_config 7000 (from_id ex_ctx1g) ex_three_done) = 3"
    by (simp add: ex_ctx1g_def ex_three_done_facts(2))
  from daily_limit_checked_at_upload
    [where cfg = ex_config and now = 7000 and c = ex_ctx1g and e = ex_env and fi = ex_file_info
       and fmt = "''480p''" and st = ex_three_done] ex_three_done_facts(3) ok fm en2
  have "snd (convertHandler ex_config ex_env 7000 ex_ctx1g ''480p'' ex_three_done) =
        ([Processing,
          delivered ex_env ex_file_info ''480p''
            (credits (snd (getOrCreateUser 7000 (from_id ex_ctx1g) no_user_data ex_three_done)) -
             CREDIT_PER_CONVERSION ex_config)], []) \<and>
      length (todayConversions ex_config 7000 (from_id ex_ctx1g)
                (fst (convertHandler ex_config ex_env 7000 ex_ctx1g ''480p'' ex_three_done))) =
        Suc (length (todayConversions ex_config 7000 (from_id ex_ctx1g) ex_three_done))"
    by blast
  then have h: "snd (snd (convertHandler ex_config ex_env 7000 ex_ctx1g ''480p'' ex_three_done)) = []"
    "length (todayConversions ex_config 7000 (from_id ex_ctx1g)
             (fst (convertHandler ex_config ex_env 7000 ex_ctx1g ''480p'' ex_three_done))) = 4"
    by (simp_all add: n3)
  from u a l b z d full f ex_three_done_facts(3) h show ?thesis
    by blast
qed

text \<open>
  C6, as the claim has it, fails. The limit is 3. User 1 has opened a session in a group
  and then converted three times in the private chat: the check reports the limit
  reached and an upload is rejected. Yet the format selection in the group, on the
  session opened before, is delivered and debited, and the day has 4 conversions of the
  user.
\<close>

theorem fourth_conversion_delivered_counterexample:
  "DAILY_LIMIT ex_config = 3 \<and>
   length (todayConversions ex_config 7000 1 ex_three_done) = 3 \<and>
   checkDailyLimit ex_config 7000 1 ex_three_done \<and>
   snd (videoHandler ex_config 7000 ex_ctx1 ex_video ex_three_done) = [DailyLimitReached] \<and>
   snd (convertHandler ex_config ex_env 7000 ex_ctx1g ''480p'' ex_three_done) =
     ([Processing, ConvertedVideo ''S1'' ''480p'' 6], []) \<and>
   length (todayConversions ex_config 7000 1
             (fst (convertHandler ex_config ex_env 7000 ex_ctx1g ''480p'' ex_three_done))) = 4"
proof -
  from ex_three_done_facts(1) obtain u' where
    u': "map_of (users ex_three_done) 1 = Some u'" and c': "credits u' = 7"
    by blast
  note n3 = ex_three_done_facts(2)
  have l: "DAILY_LIMIT ex_config = 3"
    by (simp add: ex_config_def)
  have chk: "checkDailyLimit ex_config 7000 1 ex_three_done"
    by (simp add: checkDailyLimit_def u' n3 l)
  have en: "CREDIT_PER_CONVERSION ex_config \<le> credits u'"
    by (simp add: c' ex_config_def)
  have u1: "map_of (users ex_three_done) (from_id ex_ctx1) = Some u'"
    by (simp add: ex_ctx1_def u')
  have full: "DAILY_LIMIT ex_config \<le>
      int (length (todayConversions ex_config 7000 (from_id ex_ctx1) ex_three_done))"
    by (simp add: ex_ctx1_def n3 l)
  have rej: "snd (videoHandler ex_config 7000 ex_ctx1 ex_video ex_three_done) = [DailyLimitReached]"
    by (simp add: videoHandler_limit_reached [OF u1 en full])
  have ok: "download_ok ex_env" "ffmpeg_ok ex_env" "upload_ok ex_env"
    by (simp_all add: ex_env_def)
  have fm: "fileType ex_file_info = Audio \<longrightarrow> ''480p'' \<in> set [''mp3'', ''wav'', ''ogg'']"
    by (simp add: ex_file_info_def)
  have g: "snd (getOrCreateUser 7000 (from_id ex_ctx1g) no_user_data ex_three_done) = u'"
    by (simp add: getOrCreateUser_def ex_ctx1g_def u')
  have en2: "CREDIT_PER_CONVERSION ex_config \<le>
      credits (snd (getOrCreateUser 7000 (from_id ex_ctx1g) no_user_data ex_three_done))"
    by (simp add: g en)
  from selection_not_gated [OF ex_three_done_facts(3) ok fm en2]
  have "snd (convertHandler ex_config ex_env 7000 ex_ctx1g ''480p'' ex_three_done) =
          ([Processing, delivered ex_env ex_file_info ''480p'' (credits u' - CREDIT_PER_CONVERSION ex_config)], [])"
    and "length (todayConversions ex_config 7000 (from_id ex_ctx1g)
                   (fst (convertHandler ex_config ex_env 7000 ex_ctx1g ''480p'' ex_three_done))) =
         Suc (length (todayConversions ex_config 7000 (from_id ex_ctx1g) ex_three_done))"
    by (simp_all add: g)
  then have sel: "snd (convertHandler ex_config ex_env 7000 ex_ctx1g ''480p'' ex_three_done) =
     ([Processing, ConvertedVideo ''S1'' ''480p'' 6], [])"
    and four: "length (todayConversions ex_config 7000 1
             (fst (convertHandler ex_config ex_env 7000 ex_ctx1g ''480p'' ex_three_done))) = 4"
    using n3
    by (simp_all add: delivered_def ex_file_info_def ex_env_def c' ex_config_def ex_ctx1g_def)
  from l n3 chk rej sel four show ?thesis
    by blast
qed

end
